theory Spec2Isabelle
  imports Complex_Main "HOL-Library.Sublist"
begin

section \<open>Values of the program\<close>

text \<open>
  The program of \<^verbatim>\<open>fetch.py\<close> works on what \<^verbatim>\<open>json.loads\<close> returns: \<^verbatim>\<open>None\<close>,
  booleans, integers, floats, strings, lists and dictionaries. A dictionary is kept as the
  list of its items in insertion order; the parser leaves every key once.

  Two idealisations are made and hold for the whole development. A Python float is
  taken as the exact rational its decimal text denotes, so that arithmetic is exact and
  \<^verbatim>\<open>round\<close> is decimal rounding, ties to even, of that rational. Python rounds the
  double nearest to that rational, so the two differ where a decimal tie is not a double
  (3.215 to two places) and agree elsewhere; overflow and NaN are outside the model.
  A character of a string stands for one code point of the Python string.
\<close>

datatype json =
    JNull
  | JBool bool
  | JInt int
  | JFloat rat
  | JStr string
  | JArr "json list"
  | JObj "(string \<times> json) list"

datatype exn =
    FetchException
  | KeyError
  | TypeError
  | AttributeError
  | ZeroDivisionError
  | JSONDecodeError
  | ParserError

text \<open>\<^verbatim>\<open>x[k]\<close> with a string key: only a dictionary accepts it.\<close>

fun py_getitem :: "json \<Rightarrow> string \<Rightarrow> exn + json" where
  "py_getitem (JObj kvs) k = (case map_of kvs k of None \<Rightarrow> Inl KeyError | Some v \<Rightarrow> Inr v)"
| "py_getitem _ k = Inl TypeError"

text \<open>\<^verbatim>\<open>k in x\<close> with a string \<open>k\<close>: a key of a dictionary, an element of a list, a
  substring of a string; anything else is not iterable.\<close>

fun py_contains :: "json \<Rightarrow> string \<Rightarrow> exn + bool" where
  "py_contains (JObj kvs) k = Inr (k \<in> set (map fst kvs))"
| "py_contains (JArr xs) k = Inr (JStr k \<in> set xs)"
| "py_contains (JStr s) k = Inr (sublist k s)"
| "py_contains _ k = Inl TypeError"

text \<open>\<^verbatim>\<open>x.get(k, d)\<close>: a method of dictionaries only.\<close>

fun py_get :: "json \<Rightarrow> string \<Rightarrow> json \<Rightarrow> exn + json" where
  "py_get (JObj kvs) k d = Inr (case map_of kvs k of None \<Rightarrow> d | Some v \<Rightarrow> v)"
| "py_get _ k d = Inl AttributeError"

text \<open>Truth value of an object, as \<^verbatim>\<open>if\<close> and \<^verbatim>\<open>and\<close> test it.\<close>

fun truthy :: "json \<Rightarrow> bool" where
  "truthy JNull = False"
| "truthy (JBool b) = b"
| "truthy (JInt i) = (i \<noteq> 0)"
| "truthy (JFloat q) = (q \<noteq> 0)"
| "truthy (JStr s) = (s \<noteq> [])"
| "truthy (JArr xs) = (xs \<noteq> [])"
| "truthy (JObj kvs) = (kvs \<noteq> [])"

text \<open>The number an object denotes in arithmetic; \<^verbatim>\<open>bool\<close> is a subclass of \<^verbatim>\<open>int\<close>.\<close>

fun num_val :: "json \<Rightarrow> rat option" where
  "num_val (JBool b) = Some (if b then 1 else 0)"
| "num_val (JInt i) = Some (of_int i)"
| "num_val (JFloat q) = Some q"
| "num_val _ = None"

definition round_half_even :: "rat \<Rightarrow> int" where
  "round_half_even x =
     (let f = \<lfloor>x\<rfloor>; d = x - of_int f
      in if d < 1 / 2 then f
         else if 1 / 2 < d then f + 1
         else if even f then f else f + 1)"

definition round_to :: "nat \<Rightarrow> rat \<Rightarrow> rat" where
  "round_to n x = of_int (round_half_even (x * 10 ^ n)) / 10 ^ n"

text \<open>\<^verbatim>\<open>round(x, n)\<close> with \<open>n > 0\<close>: an integer (or boolean) comes back as the same integer,
  a float is rounded, anything else has no \<^verbatim>\<open>__round__\<close>.\<close>

fun py_round :: "json \<Rightarrow> nat \<Rightarrow> exn + json" where
  "py_round (JBool b) n = Inr (JInt (if b then 1 else 0))"
| "py_round (JInt i) n = Inr (JInt i)"
| "py_round (JFloat q) n = Inr (JFloat (round_to n q))"
| "py_round _ n = Inl TypeError"

section \<open>The measurement extractor\<close>

definition LOAD_RESISTOR :: rat where
  "LOAD_RESISTOR = 39"

record measurement =
  label :: json
  date :: string
  t1 :: json
  t2 :: json
  v1 :: json
  v2 :: json
  r :: json

text \<open>\<^verbatim>\<open>round(LOAD_RESISTOR * (v1 - v2) / v2, 2)\<close>: true division always gives a float.\<close>

definition resistance :: "json \<Rightarrow> json \<Rightarrow> exn + json" where
  "resistance a b =
     (case (num_val a, num_val b) of
        (Some x, Some y) \<Rightarrow>
          if y = 0 then Inl ZeroDivisionError
          else Inr (JFloat (round_to 2 (LOAD_RESISTOR * (x - y) / y)))
      | _ \<Rightarrow> Inl TypeError)"

text \<open>\<^verbatim>\<open>round(t, 1) if t is not None else None\<close>\<close>

definition round_opt :: "json \<Rightarrow> nat \<Rightarrow> exn + json" where
  "round_opt t n = (if t \<noteq> JNull then py_round t n else Inr JNull)"

text \<open>\<^verbatim>\<open>message['data'].get('sensor', {}).get(kind, {}).get('temperature')\<close>\<close>

definition temperature :: "json \<Rightarrow> string \<Rightarrow> exn + json" where
  "temperature data kind =
     (case py_get data ''sensor'' (JObj []) of
        Inl e \<Rightarrow> Inl e
      | Inr sensor \<Rightarrow>
          (case py_get sensor kind (JObj []) of
             Inl e \<Rightarrow> Inl e
           | Inr dev \<Rightarrow> py_get dev ''temperature'' JNull))"

text \<open>
  \<^verbatim>\<open>pendulum\<close> is a library outside the repository. The three calls on the timestamp
  (\<^verbatim>\<open>parse\<close>, \<^verbatim>\<open>in_timezone('Europe/Prague')\<close>, \<^verbatim>\<open>to_datetime_string\<close>) are one parameter
  \<open>local_date\<close>, from the value under \<^verbatim>\<open>created_at\<close> to the formatted date or to the
  exception the library raises.
\<close>

definition extract_measurement :: "(json \<Rightarrow> exn + string) \<Rightarrow> json \<Rightarrow> exn + measurement option" where
  "extract_measurement local_date message =
     (case py_getitem message ''data'' of
        Inl e \<Rightarrow> Inl e
      | Inr data \<Rightarrow>
     (case py_contains data ''battery'' of
        Inl e \<Rightarrow> Inl e
      | Inr has_battery \<Rightarrow>
     if \<not> has_battery then Inr None
     else
     (case py_getitem message ''created_at'' of
        Inl e \<Rightarrow> Inl e
      | Inr created_at \<Rightarrow>
     (case local_date created_at of
        Inl e \<Rightarrow> Inl e
      | Inr date_string \<Rightarrow>
     (case py_getitem data ''battery'' of
        Inl e \<Rightarrow> Inl e
      | Inr battery \<Rightarrow>
     (case py_get battery ''voltage1'' JNull of
        Inl e \<Rightarrow> Inl e
      | Inr voltage1 \<Rightarrow>
     (case py_get battery ''voltage2'' JNull of
        Inl e \<Rightarrow> Inl e
      | Inr voltage2 \<Rightarrow>
     (case temperature data ''thermometer'' of
        Inl e \<Rightarrow> Inl e
      | Inr temp1 \<Rightarrow>
     (case temperature data ''hygrometer'' of
        Inl e \<Rightarrow> Inl e
      | Inr temp2 \<Rightarrow>
     if truthy voltage1 \<and> truthy voltage2 then
       (case py_getitem message ''label'' of
          Inl e \<Rightarrow> Inl e
        | Inr lbl \<Rightarrow>
       (case round_opt temp1 1 of
          Inl e \<Rightarrow> Inl e
        | Inr rt1 \<Rightarrow>
       (case round_opt temp2 1 of
          Inl e \<Rightarrow> Inl e
        | Inr rt2 \<Rightarrow>
       (case py_round voltage1 2 of
          Inl e \<Rightarrow> Inl e
        | Inr rv1 \<Rightarrow>
       (case py_round voltage2 2 of
          Inl e \<Rightarrow> Inl e
        | Inr rv2 \<Rightarrow>
       (case resistance voltage1 voltage2 of
          Inl e \<Rightarrow> Inl e
        | Inr res \<Rightarrow>
            Inr (Some \<lparr>label = lbl, date = date_string, t1 = rt1, t2 = rt2,
                       v1 = rv1, v2 = rv2, r = res\<rparr>)))))))
     else Inr None)))))))))"

section \<open>The environment: HTTP exchanges, standard error, the spreadsheet writer\<close>

record request =
  url :: string
  params :: "(string \<times> json) list"
  bearer :: json

text \<open>A response is its status code and what \<^verbatim>\<open>json.loads(r.text)\<close> makes of its text;
  \<open>None\<close> when the text is not JSON.\<close>

record response =
  status_code :: int
  text_json :: "json option"

record sheet =
  sheet_name :: json
  sheet_data :: "measurement list"

datatype event =
    Http request response
  | Write string "sheet list"
  | Stderr string
  | Traceback exn

text \<open>
  The world is the list of responses the servers will give, one for each request in the
  order the requests are made, and the events so far. A run is one path through the
  program, so quantifying over all lists covers every server. With no response left the
  request does not return (the code sets no timeout): the value \<open>None\<close>, kept apart from
  the exceptions. Progress output on standard output is not part of the model; the key
  lookups made to print it are.
\<close>

type_synonym world = "response list \<times> event list"

definition requests_get :: "request \<Rightarrow> world \<Rightarrow> response option \<times> world" where
  "requests_get q w =
     (case fst w of
        [] \<Rightarrow> (None, w)
      | resp # rest \<Rightarrow> (Some resp, (rest, snd w @ [Http q resp])))"

text \<open>\<^verbatim>\<open>len(data)\<close> and the items \<^verbatim>\<open>records += data\<close> appends.\<close>

fun py_len :: "json \<Rightarrow> exn + nat" where
  "py_len (JArr xs) = Inr (length xs)"
| "py_len (JObj kvs) = Inr (length kvs)"
| "py_len (JStr s) = Inr (length s)"
| "py_len _ = Inl TypeError"

fun py_iter :: "json \<Rightarrow> json list" where
  "py_iter (JArr xs) = xs"
| "py_iter (JObj kvs) = map (\<lambda>kv. JStr (fst kv)) kvs"
| "py_iter (JStr s) = map (\<lambda>c. JStr [c]) s"
| "py_iter _ = []"

section \<open>The two fetchers\<close>

record DeviceFetcher =
  d_group_id :: string
  d_api_token :: string

definition DeviceFetcher_get ::
  "DeviceFetcher \<Rightarrow> nat \<Rightarrow> nat \<Rightarrow> world \<Rightarrow> (exn + json) option \<times> world" where
  "DeviceFetcher_get self limit offset w =
     (let q = \<lparr>url = ''https://api.hardwario.cloud/v1/devices'',
               params = [(''group_id'', JStr (d_group_id self)),
                         (''limit'', JInt (int limit)),
                         (''offset'', JInt (int offset))],
               bearer = JStr (d_api_token self)\<rparr>
      in case requests_get q w of
           (None, w') \<Rightarrow> (None, w')
         | (Some resp, w') \<Rightarrow>
             if status_code resp \<noteq> 200 then (Some (Inl FetchException), w')
             else (case text_json resp of
                     None \<Rightarrow> (Some (Inl JSONDecodeError), w')
                   | Some j \<Rightarrow> (Some (Inr j), w')))"

function DeviceFetcher_loop ::
  "DeviceFetcher \<Rightarrow> json list \<Rightarrow> nat \<Rightarrow> nat \<Rightarrow> world \<Rightarrow> (exn + json list) option \<times> world" where
  "DeviceFetcher_loop self records offset limit w =
     (case DeviceFetcher_get self limit offset w of
        (None, w') \<Rightarrow> (None, w')
      | (Some (Inl e), w') \<Rightarrow> (Some (Inl e), w')
      | (Some (Inr data), w') \<Rightarrow>
          (case py_len data of
             Inl e \<Rightarrow> (Some (Inl e), w')
           | Inr count \<Rightarrow>
               if count = 0 \<or> count < limit
               then (Some (Inr (records @ py_iter data)), w')
               else DeviceFetcher_loop self (records @ py_iter data) (offset + count) limit w'))"
  by pat_completeness auto
termination
  by (relation "measure (\<lambda>(self, records, offset, limit, w). length (fst w))")
     (auto simp: DeviceFetcher_get_def requests_get_def Let_def
           split: list.splits if_splits option.splits)

declare DeviceFetcher_loop.simps [simp del]

definition DeviceFetcher_fetch :: "DeviceFetcher \<Rightarrow> world \<Rightarrow> (exn + json list) option \<times> world" where
  "DeviceFetcher_fetch self w = DeviceFetcher_loop self [] 0 100 w"

record MessageFetcher =
  m_group_id :: json
  m_device_id :: json
  m_api_token :: json

definition MessageFetcher_get ::
  "MessageFetcher \<Rightarrow> nat \<Rightarrow> nat \<Rightarrow> world \<Rightarrow> (exn + json) option \<times> world" where
  "MessageFetcher_get self limit offset w =
     (let q = \<lparr>url = ''https://api.hardwario.cloud/v1/messages'',
               params = [(''group_id'', m_group_id self),
                         (''device_id'', m_device_id self),
                         (''limit'', JInt (int limit)),
                         (''offset'', JInt (int offset))],
               bearer = m_api_token self\<rparr>
      in case requests_get q w of
           (None, w') \<Rightarrow> (None, w')
         | (Some resp, w') \<Rightarrow>
             if status_code resp \<noteq> 200 then (Some (Inl FetchException), w')
             else (case text_json resp of
                     None \<Rightarrow> (Some (Inl JSONDecodeError), w')
                   | Some j \<Rightarrow> (Some (Inr j), w')))"

function MessageFetcher_loop ::
  "MessageFetcher \<Rightarrow> json list \<Rightarrow> nat \<Rightarrow> nat \<Rightarrow> world \<Rightarrow> (exn + json list) option \<times> world" where
  "MessageFetcher_loop self records offset limit w =
     (case MessageFetcher_get self limit offset w of
        (None, w') \<Rightarrow> (None, w')
      | (Some (Inl e), w') \<Rightarrow> (Some (Inl e), w')
      | (Some (Inr data), w') \<Rightarrow>
          (case py_len data of
             Inl e \<Rightarrow> (Some (Inl e), w')
           | Inr count \<Rightarrow>
               if count = 0 \<or> count < limit
               then (Some (Inr (records @ py_iter data)), w')
               else MessageFetcher_loop self (records @ py_iter data) (offset + count) limit w'))"
  by pat_completeness auto
termination
  by (relation "measure (\<lambda>(self, records, offset, limit, w). length (fst w))")
     (auto simp: MessageFetcher_get_def requests_get_def Let_def
           split: list.splits if_splits option.splits)

declare MessageFetcher_loop.simps [simp del]

definition MessageFetcher_fetch :: "MessageFetcher \<Rightarrow> world \<Rightarrow> (exn + json list) option \<times> world" where
  "MessageFetcher_fetch self w = MessageFetcher_loop self [] 0 100 w"

section \<open>The orchestrator\<close>

text \<open>The loop over the messages of one device: \<^verbatim>\<open>measurements.append\<close> of every
  extraction that is not \<^verbatim>\<open>None\<close>.\<close>

fun measurements_loop ::
  "(json \<Rightarrow> exn + string) \<Rightarrow> json list \<Rightarrow> measurement list \<Rightarrow> exn + measurement list" where
  "measurements_loop local_date [] measurements = Inr measurements"
| "measurements_loop local_date (m # ms) measurements =
     (case extract_measurement local_date m of
        Inl e \<Rightarrow> Inl e
      | Inr None \<Rightarrow> measurements_loop local_date ms measurements
      | Inr (Some x) \<Rightarrow> measurements_loop local_date ms (measurements @ [x]))"

text \<open>\<^verbatim>\<open>x[:30]\<close>: strings and lists are sliced, other values raise.\<close>

fun py_slice30 :: "json \<Rightarrow> exn + json" where
  "py_slice30 (JStr s) = Inr (JStr (take 30 s))"
| "py_slice30 (JArr xs) = Inr (JArr (take 30 xs))"
| "py_slice30 _ = Inl TypeError"

text \<open>The body of \<^verbatim>\<open>for device in devices\<close>, giving the sheet it appends.\<close>

definition device_body ::
  "(json \<Rightarrow> exn + string) \<Rightarrow> json \<Rightarrow> world \<Rightarrow> (exn + sheet) option \<times> world" where
  "device_body local_date device w =
     (case py_getitem device ''id'' of
        Inl e \<Rightarrow> (Some (Inl e), w)
      | Inr device_id \<Rightarrow>
     (case py_getitem device ''name'' of
        Inl e \<Rightarrow> (Some (Inl e), w)
      | Inr device_name \<Rightarrow>
     (case py_getitem device ''group_id'' of
        Inl e \<Rightarrow> (Some (Inl e), w)
      | Inr device_group \<Rightarrow>
     (case py_getitem device ''api_token'' of
        Inl e \<Rightarrow> (Some (Inl e), w)
      | Inr device_token \<Rightarrow>
     (case MessageFetcher_fetch
             \<lparr>m_group_id = device_group, m_device_id = device_id, m_api_token = device_token\<rparr> w of
        (None, w') \<Rightarrow> (None, w')
      | (Some (Inl e), w') \<Rightarrow> (Some (Inl e), w')
      | (Some (Inr messages), w') \<Rightarrow>
     (case measurements_loop local_date messages [] of
        Inl e \<Rightarrow> (Some (Inl e), w')
      | Inr measurements \<Rightarrow>
     (case py_slice30 device_id of
        Inl e \<Rightarrow> (Some (Inl e), w')
      | Inr nm \<Rightarrow>
          (Some (Inr \<lparr>sheet_name = nm, sheet_data = measurements\<rparr>), w'))))))))"

fun devices_loop ::
  "(json \<Rightarrow> exn + string) \<Rightarrow> json list \<Rightarrow> sheet list \<Rightarrow> world \<Rightarrow> (exn + sheet list) option \<times> world" where
  "devices_loop local_date [] sheets w = (Some (Inr sheets), w)"
| "devices_loop local_date (device # rest) sheets w =
     (case device_body local_date device w of
        (None, w') \<Rightarrow> (None, w')
      | (Some (Inl e), w') \<Rightarrow> (Some (Inl e), w')
      | (Some (Inr sh), w') \<Rightarrow> devices_loop local_date rest (sheets @ [sh]) w')"

text \<open>
  \<^verbatim>\<open>pandas\<close> is outside the repository: the writer is the parameter \<open>to_excel\<close>, from the
  file name and the sheets in order to the exception it raises, if any. The event
  \<open>Write\<close> records that the writer was entered and with what.
\<close>

definition main ::
  "(json \<Rightarrow> exn + string) \<Rightarrow> (string \<Rightarrow> sheet list \<Rightarrow> exn option) \<Rightarrow>
   string \<Rightarrow> string \<Rightarrow> string \<Rightarrow> world \<Rightarrow> (exn + unit) option \<times> world" where
  "main local_date to_excel xlsx_file group_id api_token w =
     (case DeviceFetcher_fetch \<lparr>d_group_id = group_id, d_api_token = api_token\<rparr> w of
        (None, w1) \<Rightarrow> (None, w1)
      | (Some (Inl e), w1) \<Rightarrow> (Some (Inl e), w1)
      | (Some (Inr devices), w1) \<Rightarrow>
     (case devices_loop local_date devices [] w1 of
        (None, w2) \<Rightarrow> (None, w2)
      | (Some (Inl e), w2) \<Rightarrow> (Some (Inl e), w2)
      | (Some (Inr sheets), w2) \<Rightarrow>
          (let w3 = (fst w2, snd w2 @ [Write xlsx_file sheets])
           in case to_excel xlsx_file sheets of
                Some e \<Rightarrow> (Some (Inl e), w3)
              | None \<Rightarrow> (Some (Inr ()), w3))))"

text \<open>
  The block under \<^verbatim>\<open>if __name__ == '__main__'\<close>: a \<^verbatim>\<open>FetchException\<close> is caught, the
  message goes to standard error and the script runs to its end, which is exit status 0;
  any other exception leaves with a traceback and status 1. The result is the exit status
  and the events of the run, \<open>None\<close> when the run never ends. An interrupt from the
  keyboard may come at any moment and is outside the model.
\<close>

definition program ::
  "(json \<Rightarrow> exn + string) \<Rightarrow> (string \<Rightarrow> sheet list \<Rightarrow> exn option) \<Rightarrow>
   string \<Rightarrow> string \<Rightarrow> string \<Rightarrow> response list \<Rightarrow> (int \<times> event list) option" where
  "program local_date to_excel xlsx_file group_id api_token script =
     (case main local_date to_excel xlsx_file group_id api_token (script, []) of
        (None, w) \<Rightarrow> None
      | (Some (Inr u), w) \<Rightarrow> Some (0, snd w)
      | (Some (Inl e), w) \<Rightarrow>
          if e = FetchException
          then Some (0, snd w @ [Stderr ''Request to REST API failed. Please, check your parameters!''])
          else Some (1, snd w @ [Traceback e]))"

section \<open>Reading a nested field, in the words of the specification\<close>


section \<open>Sample data\<close>

text \<open>A stand-in for the date library in the examples: it knows one timestamp and its
  local time in Prague, and takes every other string as unparseable.\<close>

definition stub_local_date :: "json \<Rightarrow> exn + string" where
  "stub_local_date c =
     (case c of
        JStr s \<Rightarrow>
          if s = ''2020-03-01T10:00:00Z'' then Inr ''2020-03-01 11:00:00''
          else Inl ParserError
      | _ \<Rightarrow> Inl TypeError)"

definition sample_battery :: "(string \<times> json) list" where
  "sample_battery = [(''voltage1'', JFloat (3217 / 1000)), (''voltage2'', JInt 3)]"

definition sample_data :: "(string \<times> json) list" where
  "sample_data =
     [(''battery'', JObj sample_battery),
      (''sensor'', JObj [(''thermometer'', JObj [(''temperature'', JFloat (2125 / 100))])])]"

definition sample_message :: "(string \<times> json) list" where
  "sample_message =
     [(''label'', JStr ''a''), (''created_at'', JStr ''2020-03-01T10:00:00Z''),
      (''data'', JObj sample_data)]"

definition message_bad_date :: "(string \<times> json) list" where
  "message_bad_date =
     [(''label'', JStr ''a''), (''created_at'', JStr ''not a date''),
      (''data'', JObj [(''battery'', JObj [])])]"

definition message_no_battery :: "(string \<times> json) list" where
  "message_no_battery = [(''label'', JStr ''b''), (''data'', JObj [(''sensor'', JNull)])]"

definition message_zero_voltage :: "(string \<times> json) list" where
  "message_zero_voltage =
     [(''label'', JStr ''c''), (''created_at'', JStr ''2020-03-01T10:00:00Z''),
      (''data'', JObj [(''battery'', JObj [(''voltage1'', JFloat (31 / 10)), (''voltage2'', JInt 0)])])]"

section \<open>Pagination, in the words of the specification\<close>

text \<open>
  One paging loop for both endpoints: pages are asked for with a fixed limit and a growing
  offset, their items are accumulated in request order, and the loop stops at a page
  with no item or with fewer items than the limit; a status other than 200 ends it with
  the fetch failure. The function gives the outcome, the offsets asked for, in order, and
  the responses left unread.
\<close>

fun paginate ::
  "nat \<Rightarrow> json list \<Rightarrow> nat \<Rightarrow> response list \<Rightarrow> (exn + json list) option \<times> nat list \<times> response list" where
  "paginate limit records offset [] = (None, [], [])"
| "paginate limit records offset (resp # rest) =
     (if status_code resp \<noteq> 200 then (Some (Inl FetchException), [offset], rest)
      else case text_json resp of
             None \<Rightarrow> (Some (Inl JSONDecodeError), [offset], rest)
           | Some page \<Rightarrow>
               (case py_len page of
                  Inl e \<Rightarrow> (Some (Inl e), [offset], rest)
                | Inr count \<Rightarrow>
                    if count = 0 \<or> count < limit
                    then (Some (Inr (records @ py_iter page)), [offset], rest)
                    else (case paginate limit (records @ py_iter page) (offset + count) rest of
                            (res, offsets, rest') \<Rightarrow> (res, offset # offsets, rest'))))"

text \<open>The events of a fetch: one exchange for every offset asked for.\<close>

definition exchanges :: "(nat \<Rightarrow> request) \<Rightarrow> nat list \<Rightarrow> response list \<Rightarrow> event list" where
  "exchanges mk offsets script = map (\<lambda>(offset, resp). Http (mk offset) resp) (zip offsets script)"

text \<open>The requests the two fetchers build in \<^verbatim>\<open>_get\<close>.\<close>

definition device_request :: "DeviceFetcher \<Rightarrow> nat \<Rightarrow> nat \<Rightarrow> request" where
  "device_request self limit offset =
     \<lparr>url = ''https://api.hardwario.cloud/v1/devices'',
      params = [(''group_id'', JStr (d_group_id self)),
                (''limit'', JInt (int limit)),
                (''offset'', JInt (int offset))],
      bearer = JStr (d_api_token self)\<rparr>"

definition message_request :: "MessageFetcher \<Rightarrow> nat \<Rightarrow> nat \<Rightarrow> request" where
  "message_request self limit offset =
     \<lparr>url = ''https://api.hardwario.cloud/v1/messages'',
      params = [(''group_id'', m_group_id self),
                (''device_id'', m_device_id self),
                (''limit'', JInt (int limit)),
                (''offset'', JInt (int offset))],
      bearer = m_api_token self\<rparr>"

text \<open>A response with status 200 whose text is a JSON array.\<close>

definition ok_page :: "json list \<Rightarrow> response" where
  "ok_page items = \<lparr>status_code = 200, text_json = Some (JArr items)\<rparr>"

text \<open>The paging parameters of a request.\<close>

fun limit_offset :: "event \<Rightarrow> json option \<times> json option" where
  "limit_offset (Http q resp) = (map_of (params q) ''limit'', map_of (params q) ''offset'')"
| "limit_offset _ = (None, None)"


section \<open>Runs and their events\<close>

text \<open>An exchange that succeeded; a run of successful exchanges; a run that ended at its
  first exchange with a status other than 200; and what a step may leave behind: a clean
  run, or an aborted one together with the fetch failure.\<close>

fun ok_exchange :: "event \<Rightarrow> bool" where
  "ok_exchange (Http q resp) = (status_code resp = 200)"
| "ok_exchange _ = False"

definition clean :: "event list \<Rightarrow> bool" where
  "clean tr = (\<forall>e\<in>set tr. ok_exchange e)"

definition aborted :: "event list \<Rightarrow> bool" where
  "aborted tr =
     (tr \<noteq> [] \<and> clean (butlast tr) \<and> (\<exists>q resp. last tr = Http q resp \<and> status_code resp \<noteq> 200))"

definition propagated :: "(exn + 'a) option \<Rightarrow> event list \<Rightarrow> bool" where
  "propagated res new = (clean new \<or> (aborted new \<and> res = Some (Inl FetchException)))"

text \<open>The calls of the writer in a run: file name and sheets.\<close>

fun written :: "event list \<Rightarrow> (string \<times> sheet list) list" where
  "written [] = []"
| "written (Write f sheets # es) = (f, sheets) # written es"
| "written (_ # es) = written es"

text \<open>What is on standard error.\<close>

fun on_stderr :: "event \<Rightarrow> bool" where
  "on_stderr (Stderr s) = True"
| "on_stderr (Traceback e) = True"
| "on_stderr _ = False"

text \<open>A device, a failing response, a writer that raises nothing, and the fetchers of the
  examples.\<close>

definition device_a :: json where
  "device_a = JObj [(''id'', JStr ''dev-a''), (''name'', JStr ''A''),
                    (''group_id'', JStr ''group-a''), (''api_token'', JStr ''token-a'')]"

definition response_500 :: response where
  "response_500 = \<lparr>status_code = 500, text_json = None\<rparr>"

definition no_writer_error :: "string \<Rightarrow> sheet list \<Rightarrow> exn option" where
  "no_writer_error f sheets = None"

definition fetcher_d :: DeviceFetcher where
  "fetcher_d = \<lparr>d_group_id = ''group'', d_api_token = ''token''\<rparr>"

definition fetcher_a :: MessageFetcher where
  "fetcher_a = \<lparr>m_group_id = JStr ''group-a'', m_device_id = JStr ''dev-a'',
                 m_api_token = JStr ''token-a''\<rparr>"

section \<open>The orchestrator, in the words of the specification\<close>

text \<open>The rows of a sheet: the extraction results that are not absent, in message order.\<close>

definition rows :: "(json \<Rightarrow> exn + string) \<Rightarrow> json list \<Rightarrow> measurement list" where
  "rows local_date messages =
     List.map_filter
       (\<lambda>m. case extract_measurement local_date m of Inr (Some x) \<Rightarrow> Some x | _ \<Rightarrow> None)
       messages"

text \<open>The message fetcher made from a device record: its own \<open>group_id\<close>, \<open>id\<close> and
  \<open>api_token\<close>.\<close>

definition fetcher_of :: "json \<Rightarrow> MessageFetcher option" where
  "fetcher_of device =
     (case (py_getitem device ''group_id'', py_getitem device ''id'', py_getitem device ''api_token'') of
        (Inr g, Inr i, Inr t) \<Rightarrow> Some \<lparr>m_group_id = g, m_device_id = i, m_api_token = t\<rparr>
      | _ \<Rightarrow> None)"

text \<open>The messages of every device, fetched device after device in the order of the list,
  each fetch starting in the world the previous one left.\<close>

fun message_runs :: "json list \<Rightarrow> world \<Rightarrow> (json list list \<times> world) option" where
  "message_runs [] w = Some ([], w)"
| "message_runs (device # rest) w =
     (case fetcher_of device of
        None \<Rightarrow> None
      | Some f \<Rightarrow>
          (case MessageFetcher_fetch f w of
             (Some (Inr messages), w') \<Rightarrow>
               (case message_runs rest w' of
                  None \<Rightarrow> None
                | Some (runs, w'') \<Rightarrow> Some (messages # runs, w''))
           | _ \<Rightarrow> None))"

text \<open>A sheet belongs to a device and its messages.\<close>

definition sheet_of :: "(json \<Rightarrow> exn + string) \<Rightarrow> json \<Rightarrow> json list \<Rightarrow> sheet \<Rightarrow> bool" where
  "sheet_of local_date device messages sh =
     (sheet_data sh = rows local_date messages
      \<and> (\<exists>device_id. py_getitem device ''id'' = Inr device_id
                      \<and> py_slice30 device_id = Inr (sheet_name sh)))"

text \<open>The scenario of two devices, the first with three messages of which one has no
  battery, the second without messages; and devices whose ids are long, alike in their
  first 30 characters, or empty.\<close>

definition device_b :: json where
  "device_b = JObj [(''id'', JStr ''dev-b''), (''name'', JStr ''B''),
                    (''group_id'', JStr ''group-b''), (''api_token'', JStr ''token-b'')]"

definition message_second :: "(string \<times> json) list" where
  "message_second =
     [(''label'', JStr ''c''), (''created_at'', JStr ''2020-03-01T10:00:00Z''),
      (''data'', JObj [(''battery'', JObj [(''voltage1'', JInt 4), (''voltage2'', JInt 3)])])]"

definition scenario_script :: "response list" where
  "scenario_script =
     [ok_page [device_a, device_b],
      ok_page [JObj sample_message, JObj message_no_battery, JObj message_second],
      ok_page []]"

definition sheet_a :: sheet where
  "sheet_a = \<lparr>sheet_name = JStr ''dev-a'',
              sheet_data =
                [\<lparr>label = JStr ''a'', date = ''2020-03-01 11:00:00'', t1 = JFloat (106 / 5),
                  t2 = JNull, v1 = JFloat (161 / 50), v2 = JInt 3, r = JFloat (141 / 50)\<rparr>,
                 \<lparr>label = JStr ''c'', date = ''2020-03-01 11:00:00'', t1 = JNull,
                  t2 = JNull, v1 = JInt 4, v2 = JInt 3, r = JFloat 13\<rparr>]\<rparr>"

definition sheet_b :: sheet where
  "sheet_b = \<lparr>sheet_name = JStr ''dev-b'', sheet_data = []\<rparr>"

definition device_long :: json where
  "device_long = JObj [(''id'', JStr ''0123456789abcdefghijklmnopqrstuvwxyz''), (''name'', JStr ''L''),
                       (''group_id'', JStr ''group-a''), (''api_token'', JStr ''token-a'')]"

definition device_long_twin :: json where
  "device_long_twin = JObj [(''id'', JStr ''0123456789abcdefghijklmnopqrstXYZ''), (''name'', JStr ''T''),
                       (''group_id'', JStr ''group-a''), (''api_token'', JStr ''token-a'')]"

definition device_empty_id :: json where
  "device_empty_id = JObj [(''id'', JStr []), (''name'', JStr ''E''),
                       (''group_id'', JStr ''group-a''), (''api_token'', JStr ''token-a'')]"

definition names_script :: "response list" where
  "names_script =
     [ok_page [device_long, device_long_twin, device_empty_id], ok_page [], ok_page [], ok_page []]"

text \<open>The sheets of devices with the given ids and messages: the name is the first 30
  characters of the id, the rows are those of the messages.\<close>

definition sheets_for ::
  "(json \<Rightarrow> exn + string) \<Rightarrow> string list \<Rightarrow> json list list \<Rightarrow> sheet list" where
  "sheets_for local_date ids runs =
     map (\<lambda>(s, messages). \<lparr>sheet_name = JStr (take 30 s), sheet_data = rows local_date messages\<rparr>)
       (zip ids runs)"

section \<open>Rounding\<close>

lemma floor_rat_numeral [simp]: "\<lfloor>numeral a / numeral b :: rat\<rfloor> = numeral a div numeral b"
  using floor_divide_of_int_eq [of "numeral a" "numeral b", where ?'a = rat] by simp






section \<open>The extractor\<close>




lemma has_key: "map_of d k = Some v \<Longrightarrow> k \<in> fst ` set d"
  by (force dest: map_of_SomeD)

lemma extract_no_data:
  "map_of msg ''data'' = None \<Longrightarrow> extract_measurement ld (JObj msg) = Inl KeyError"
  by (simp add: extract_measurement_def)

lemma extract_no_battery:
  "map_of msg ''data'' = Some (JObj d) \<Longrightarrow> map_of d ''battery'' = None \<Longrightarrow>
     extract_measurement ld (JObj msg) = Inr None"
  by (simp add: extract_measurement_def map_of_eq_None_iff)

lemma extract_date_raises:
  "map_of msg ''data'' = Some (JObj d) \<Longrightarrow> map_of d ''battery'' = Some bat \<Longrightarrow>
   map_of msg ''created_at'' = Some c \<Longrightarrow> ld c = Inl e \<Longrightarrow>
     extract_measurement ld (JObj msg) = Inl e"
  by (simp add: extract_measurement_def has_key)

lemma extract_falsy:
  assumes "map_of msg ''data'' = Some (JObj d)" "map_of d ''battery'' = Some (JObj b)"
    and "map_of msg ''created_at'' = Some c" "ld c = Inr ds"
    and "temperature (JObj d) ''thermometer'' = Inr k1"
    and "temperature (JObj d) ''hygrometer'' = Inr k2"
    and "\<not> truthy (case map_of b ''voltage1'' of None \<Rightarrow> JNull | Some v \<Rightarrow> v) \<or>
         \<not> truthy (case map_of b ''voltage2'' of None \<Rightarrow> JNull | Some v \<Rightarrow> v)"
  shows "extract_measurement ld (JObj msg) = Inr None"
  using assms by (auto simp: extract_measurement_def has_key)









text \<open>
  C2, as stated, fails: a message whose battery has no \<open>voltage1\<close> and whose timestamp the
  date library rejects raises instead of returning \<^verbatim>\<open>None\<close>, since the timestamp is
  parsed before the voltages are tested.
\<close>

theorem extract_measurement_absent_counterexample:
  "map_of message_bad_date ''data'' = Some (JObj [(''battery'', JObj [])])
   \<and> map_of [] ''voltage1'' = (None :: json option)
   \<and> extract_measurement stub_local_date (JObj message_bad_date) = Inl ParserError
   \<and> extract_measurement stub_local_date (JObj message_bad_date) \<noteq> Inr None"
  by (simp add: message_bad_date_def extract_measurement_def stub_local_date_def)

text \<open>
  C2, amended. A message whose data is an object without a battery field gives
  \<^verbatim>\<open>None\<close>, whatever else it holds. A message whose data has a battery object in which
  \<open>voltage1\<close> or \<open>voltage2\<close> is missing, null or zero gives \<^verbatim>\<open>None\<close> provided its
  timestamp is present and converted by the date library and the sensor levels, where
  present, are objects.
\<close>

theorem extract_measurement_absent:
  assumes "map_of msg ''data'' = Some (JObj d)"
    and "map_of d ''battery'' = None \<or>
         (\<exists>b c ds k1 k2.
            map_of d ''battery'' = Some (JObj b)
            \<and> map_of msg ''created_at'' = Some c \<and> local_date c = Inr ds
            \<and> temperature (JObj d) ''thermometer'' = Inr k1
            \<and> temperature (JObj d) ''hygrometer'' = Inr k2
            \<and> (map_of b ''voltage1'' \<in> {None, Some JNull, Some (JInt 0), Some (JFloat 0)}
               \<or> map_of b ''voltage2'' \<in> {None, Some JNull, Some (JInt 0), Some (JFloat 0)}))"
  shows "extract_measurement local_date (JObj msg) = Inr None"
  using assms(2)
proof (elim disjE exE conjE)
  assume "map_of d ''battery'' = None"
  with assms(1) show ?thesis by (rule extract_no_battery)
next
  fix b c ds k1 k2
  assume h: "map_of d ''battery'' = Some (JObj b)" "map_of msg ''created_at'' = Some c"
    "local_date c = Inr ds" "temperature (JObj d) ''thermometer'' = Inr k1"
    "temperature (JObj d) ''hygrometer'' = Inr k2"
  assume "map_of b ''voltage1'' \<in> {None, Some JNull, Some (JInt 0), Some (JFloat 0)}"
  then have "\<not> truthy (case map_of b ''voltage1'' of None \<Rightarrow> JNull | Some v \<Rightarrow> v)"
    by auto
  then show ?thesis
    using extract_falsy [where ld = local_date, OF assms(1) h] by blast
next
  fix b c ds k1 k2
  assume h: "map_of d ''battery'' = Some (JObj b)" "map_of msg ''created_at'' = Some c"
    "local_date c = Inr ds" "temperature (JObj d) ''thermometer'' = Inr k1"
    "temperature (JObj d) ''hygrometer'' = Inr k2"
  assume "map_of b ''voltage2'' \<in> {None, Some JNull, Some (JInt 0), Some (JFloat 0)}"
  then have "\<not> truthy (case map_of b ''voltage2'' of None \<Rightarrow> JNull | Some v \<Rightarrow> v)"
    by auto
  then show ?thesis
    using extract_falsy [where ld = local_date, OF assms(1) h] by blast
qed

theorem extract_measurement_absent_witness:
  "extract_measurement stub_local_date (JObj message_no_battery) = Inr None
   \<and> extract_measurement stub_local_date (JObj message_zero_voltage) = Inr None"
  using extract_measurement_absent [of message_no_battery "[(''sensor'', JNull)]" stub_local_date]
    extract_measurement_absent [of message_zero_voltage
      "[(''battery'', JObj [(''voltage1'', JFloat (31 / 10)), (''voltage2'', JInt 0)])]" stub_local_date]
  by (simp add: message_no_battery_def message_zero_voltage_def stub_local_date_def temperature_def)

text \<open>
  C10. The extractor is not total on what it is given: a message without the key
  \<open>data\<close> raises \<^verbatim>\<open>KeyError\<close>; and a message with a battery object whose voltages are
  missing raises what the date library raises on its timestamp, although with a
  timestamp that converts the result is \<^verbatim>\<open>None\<close>.
\<close>

theorem extract_measurement_not_total:
  "(map_of msg ''data'' = None \<longrightarrow> extract_measurement local_date (JObj msg) = Inl KeyError)
   \<and> (\<forall>d b c e.
         map_of msg ''data'' = Some (JObj d) \<and> map_of d ''battery'' = Some (JObj b)
         \<and> (map_of b ''voltage1'' = None \<or> map_of b ''voltage2'' = None)
         \<and> map_of msg ''created_at'' = Some c \<and> local_date c = Inl e
         \<longrightarrow> extract_measurement local_date (JObj msg) = Inl e
             \<and> (\<forall>(other_date :: json \<Rightarrow> exn + string) ds k1 k2.
                   other_date c = Inr ds
                   \<and> temperature (JObj d) ''thermometer'' = Inr k1
                   \<and> temperature (JObj d) ''hygrometer'' = Inr k2
                   \<longrightarrow> extract_measurement other_date (JObj msg) = Inr None))"
proof (intro conjI impI allI)
  assume "map_of msg ''data'' = None"
  then show "extract_measurement local_date (JObj msg) = Inl KeyError"
    by (rule extract_no_data)
next
  fix d b c e
  assume h: "map_of msg ''data'' = Some (JObj d) \<and> map_of d ''battery'' = Some (JObj b)
         \<and> (map_of b ''voltage1'' = None \<or> map_of b ''voltage2'' = None)
         \<and> map_of msg ''created_at'' = Some c \<and> local_date c = Inl e"
  then show "extract_measurement local_date (JObj msg) = Inl e"
    using extract_date_raises [where ld = local_date] by blast
next
  fix d b c e and other_date :: "json \<Rightarrow> exn + string" and ds k1 k2
  assume h: "map_of msg ''data'' = Some (JObj d) \<and> map_of d ''battery'' = Some (JObj b)
         \<and> (map_of b ''voltage1'' = None \<or> map_of b ''voltage2'' = None)
         \<and> map_of msg ''created_at'' = Some c \<and> local_date c = Inl e"
    and g: "other_date c = Inr ds
                   \<and> temperature (JObj d) ''thermometer'' = Inr k1
                   \<and> temperature (JObj d) ''hygrometer'' = Inr k2"
  from h have "\<not> truthy (case map_of b ''voltage1'' of None \<Rightarrow> JNull | Some v \<Rightarrow> v) \<or>
         \<not> truthy (case map_of b ''voltage2'' of None \<Rightarrow> JNull | Some v \<Rightarrow> v)"
    by auto
  with h g show "extract_measurement other_date (JObj msg) = Inr None"
    using extract_falsy [where ld = other_date and msg = msg and d = d and b = b and c = c] by blast
qed

theorem extract_measurement_not_total_witness:
  "extract_measurement stub_local_date (JObj [(''label'', JStr ''a'')]) = Inl KeyError
   \<and> extract_measurement stub_local_date
        (JObj [(''created_at'', JStr ''not a date''), (''data'', JObj [(''battery'', JObj [])])])
       = Inl ParserError
   \<and> extract_measurement (\<lambda>c. Inr ''2020-03-01 11:00:00'')
        (JObj [(''created_at'', JStr ''not a date''), (''data'', JObj [(''battery'', JObj [])])])
       = Inr None"
  using extract_measurement_not_total [of "[(''label'', JStr ''a'')]" stub_local_date]
    extract_measurement_not_total [of
      "[(''created_at'', JStr ''not a date''), (''data'', JObj [(''battery'', JObj [])])]"
      stub_local_date]
  by (simp add: stub_local_date_def temperature_def)

section \<open>The fetchers\<close>

lemma exchanges_Nil [simp]: "exchanges mk [] script = []" "exchanges mk offsets [] = []"
  by (simp_all add: exchanges_def)

lemma exchanges_Cons [simp]:
  "exchanges mk (offset # offsets) (resp # script) = Http (mk offset) resp # exchanges mk offsets script"
  by (simp add: exchanges_def)

lemma DeviceFetcher_get_Cons:
  "DeviceFetcher_get self limit offset (resp # rest, tr) =
     (if status_code resp \<noteq> 200 then Some (Inl FetchException)
      else case text_json resp of None \<Rightarrow> Some (Inl JSONDecodeError) | Some j \<Rightarrow> Some (Inr j),
      (rest, tr @ [Http (device_request self limit offset) resp]))"
  by (simp add: DeviceFetcher_get_def requests_get_def device_request_def split: option.splits)

lemma MessageFetcher_get_Cons:
  "MessageFetcher_get self limit offset (resp # rest, tr) =
     (if status_code resp \<noteq> 200 then Some (Inl FetchException)
      else case text_json resp of None \<Rightarrow> Some (Inl JSONDecodeError) | Some j \<Rightarrow> Some (Inr j),
      (rest, tr @ [Http (message_request self limit offset) resp]))"
  by (simp add: MessageFetcher_get_def requests_get_def message_request_def split: option.splits)

lemma DeviceFetcher_loop_paginate:
  "DeviceFetcher_loop self records offset limit (script, tr) =
     (case paginate limit records offset script of
        (res, offsets, rest) \<Rightarrow> (res, (rest, tr @ exchanges (device_request self limit) offsets script)))"
proof (induction script arbitrary: records offset tr)
  case Nil
  show ?case
    by (subst DeviceFetcher_loop.simps) (simp add: DeviceFetcher_get_def requests_get_def)
next
  case (Cons resp script)
  show ?case
    by (subst DeviceFetcher_loop.simps)
       (simp add: DeviceFetcher_get_Cons Cons.IH split: option.splits sum.splits prod.splits)
qed

lemma MessageFetcher_loop_paginate:
  "MessageFetcher_loop self records offset limit (script, tr) =
     (case paginate limit records offset script of
        (res, offsets, rest) \<Rightarrow> (res, (rest, tr @ exchanges (message_request self limit) offsets script)))"
proof (induction script arbitrary: records offset tr)
  case Nil
  show ?case
    by (subst MessageFetcher_loop.simps) (simp add: MessageFetcher_get_def requests_get_def)
next
  case (Cons resp script)
  show ?case
    by (subst MessageFetcher_loop.simps)
       (simp add: MessageFetcher_get_Cons Cons.IH split: option.splits sum.splits prod.splits)
qed

lemma limit_offset_exchanges:
  "map limit_offset (exchanges (device_request df limit) offsets script) =
   map limit_offset (exchanges (message_request mf limit) offsets script)"
  by (induction offsets arbitrary: script; case_tac script)
     (simp_all add: device_request_def message_request_def)

lemma paginate_consumed:
  "paginate limit records offset script = (res, offsets, rest) \<Longrightarrow>
     script = take (length offsets) script @ rest \<and> length offsets \<le> length script"
proof (induction script arbitrary: records offset res offsets rest)
  case Nil
  then show ?case by simp
next
  case (Cons resp script)
  then show ?case
    by (fastforce split: if_splits option.splits sum.splits prod.splits)
qed

lemma limit_offset_device:
  "length offsets \<le> length script \<Longrightarrow>
     map limit_offset (exchanges (device_request df limit) offsets script) =
     map (\<lambda>offset. (Some (JInt (int limit)), Some (JInt (int offset)))) offsets"
  by (induction offsets arbitrary: script; case_tac script)
     (simp_all add: device_request_def)

lemma DeviceFetcher_fetch_paginate:
  "DeviceFetcher_fetch self (script, tr) =
     (case paginate 100 [] 0 script of
        (res, offsets, rest) \<Rightarrow> (res, (rest, tr @ exchanges (device_request self 100) offsets script)))"
  by (simp add: DeviceFetcher_fetch_def DeviceFetcher_loop_paginate)

lemma MessageFetcher_fetch_paginate:
  "MessageFetcher_fetch self (script, tr) =
     (case paginate 100 [] 0 script of
        (res, offsets, rest) \<Rightarrow> (res, (rest, tr @ exchanges (message_request self 100) offsets script)))"
  by (simp add: MessageFetcher_fetch_def MessageFetcher_loop_paginate)

text \<open>
  C8. The two fetchers implement one pagination function: on the same responses, from
  the same world, both return what \<open>paginate\<close> returns, leave the same responses unread,
  and ask with the same limits and offsets, limit 100 and the offsets of \<open>paginate\<close>.
\<close>

theorem fetchers_same_pagination:
  "fst (DeviceFetcher_fetch df (script, tr)) = fst (paginate 100 [] 0 script)
   \<and> fst (MessageFetcher_fetch mf (script, tr)) = fst (paginate 100 [] 0 script)
   \<and> fst (snd (DeviceFetcher_fetch df (script, tr))) = fst (snd (MessageFetcher_fetch mf (script, tr)))
   \<and> (\<exists>new_d new_m.
         snd (snd (DeviceFetcher_fetch df (script, tr))) = tr @ new_d
         \<and> snd (snd (MessageFetcher_fetch mf (script, tr))) = tr @ new_m
         \<and> map limit_offset new_d = map limit_offset new_m
         \<and> map limit_offset new_d =
             map (\<lambda>offset. (Some (JInt 100), Some (JInt (int offset))))
               (fst (snd (paginate 100 [] 0 script))))"
proof -
  obtain res offsets rest where p: "paginate 100 [] 0 script = (res, offsets, rest)"
    by (cases "paginate 100 [] 0 script") auto
  from paginate_consumed [OF p] have len: "length offsets \<le> length script" by simp
  have d: "DeviceFetcher_fetch df (script, tr) =
      (res, (rest, tr @ exchanges (device_request df 100) offsets script))"
    by (simp add: DeviceFetcher_fetch_paginate p)
  have m: "MessageFetcher_fetch mf (script, tr) =
      (res, (rest, tr @ exchanges (message_request mf 100) offsets script))"
    by (simp add: MessageFetcher_fetch_paginate p)
  have e: "map limit_offset (exchanges (device_request df 100) offsets script) =
      map limit_offset (exchanges (message_request mf 100) offsets script)"
    by (rule limit_offset_exchanges)
  have f: "map limit_offset (exchanges (device_request df 100) offsets script) =
      map (\<lambda>offset. (Some (JInt 100), Some (JInt (int offset)))) offsets"
    using limit_offset_device [OF len, of df 100] by simp
  show ?thesis
    unfolding d m p using e f by simp
qed






section \<open>Failure of a request\<close>

lemma clean_simps [simp]:
  "clean []" "clean (e # es) = (ok_exchange e \<and> clean es)" "clean (xs @ ys) = (clean xs \<and> clean ys)"
  by (auto simp: clean_def)

lemma aborted_append: "clean xs \<Longrightarrow> aborted ys \<Longrightarrow> aborted (xs @ ys)"
  by (auto simp: aborted_def butlast_append)

lemma aborted_single: "status_code resp \<noteq> 200 \<Longrightarrow> aborted [Http q resp]"
  by (simp add: aborted_def)

lemma clean_written: "clean tr \<Longrightarrow> written tr = []"
proof (induction tr)
  case Nil
  then show ?case by simp
next
  case (Cons e tr)
  then show ?case by (cases e) auto
qed

lemma written_append: "written (xs @ ys) = written xs @ written ys"
  by (induction xs rule: written.induct) auto

lemma clean_no_failure:
  "clean tr \<Longrightarrow> Http q resp \<in> set tr \<Longrightarrow> status_code resp = 200"
  by (force simp: clean_def)

lemma aborted_failure_last:
  assumes "aborted tr" and "Http q resp \<in> set tr" and "status_code resp \<noteq> 200"
  shows "last tr = Http q resp \<and> written tr = []"
proof -
  from assms(1) obtain q' resp' where
    ne: "tr \<noteq> []" and c: "clean (butlast tr)" and l: "last tr = Http q' resp'"
    by (auto simp: aborted_def)
  from ne have tr: "tr = butlast tr @ [last tr]" by simp
  from assms(2) tr have "Http q resp \<in> set (butlast tr) \<or> Http q resp = last tr"
    by (metis Un_iff empty_iff empty_set set_ConsD set_append)
  with c assms(3) have "Http q resp = last tr"
    using clean_no_failure by blast
  moreover have "written tr = []"
    by (subst tr) (simp add: written_append clean_written [OF c] l)
  ultimately show ?thesis by simp
qed

lemma paginate_status:
  "paginate limit records offset script = (res, offsets, rest) \<Longrightarrow>
     (if res = Some (Inl FetchException) then aborted (exchanges mk offsets script)
      else clean (exchanges mk offsets script))"
proof (induction script arbitrary: records offset res offsets rest)
  case Nil
  then show ?case by auto
next
  case (Cons resp script)
  show ?case
  proof (cases "status_code resp \<noteq> 200")
    case True
    with Cons.prems show ?thesis by (auto simp: aborted_single)
  next
    case ok: False
    show ?thesis
    proof (cases "text_json resp")
      case None
      with ok Cons.prems show ?thesis by auto
    next
      case (Some page)
      show ?thesis
      proof (cases "py_len page")
        case (Inl e)
        have "e \<noteq> FetchException" using Inl by (cases page) auto
        with Inl Some ok Cons.prems show ?thesis by auto
      next
        case (Inr count)
        show ?thesis
        proof (cases "count = 0 \<or> count < limit")
          case True
          with Inr Some ok Cons.prems show ?thesis by auto
        next
          case False
          obtain res' offs' rest' where
            p: "paginate limit (records @ py_iter page) (offset + count) script = (res', offs', rest')"
            by (cases "paginate limit (records @ py_iter page) (offset + count) script") auto
          from Cons.prems False Inr Some ok p have eq: "res = res'" "offsets = offset # offs'"
            by auto
          from Cons.IH [OF p] ok show ?thesis
            unfolding eq using aborted_append [of "[Http (mk offset) resp]"]
            by (auto split: if_splits)
        qed
      qed
    qed
  qed
qed

lemma DeviceFetcher_fetch_propagated:
  "DeviceFetcher_fetch self (script, tr) = (res, rest, tr') \<Longrightarrow>
     \<exists>new. tr' = tr @ new \<and> propagated res new"
  by (auto simp: DeviceFetcher_fetch_paginate propagated_def split: prod.splits
           dest: paginate_status [where mk = "device_request self 100"] split: if_splits)

lemma MessageFetcher_fetch_propagated:
  "MessageFetcher_fetch self (script, tr) = (res, rest, tr') \<Longrightarrow>
     \<exists>new. tr' = tr @ new \<and> propagated res new"
  by (auto simp: MessageFetcher_fetch_paginate propagated_def split: prod.splits
           dest: paginate_status [where mk = "message_request self 100"] split: if_splits)


lemma propagated_append:
  "clean xs \<Longrightarrow> propagated res ys \<Longrightarrow> propagated res (xs @ ys)"
  by (auto simp: propagated_def aborted_append)

lemma device_body_propagated:
  assumes "device_body local_date device (script, tr) = (res, rest, tr')"
  shows "\<exists>new. tr' = tr @ new \<and> propagated res new"
proof -
  show ?thesis
  proof (cases "py_getitem device ''id''")
    case (Inl e)
    with assms show ?thesis by (auto simp: device_body_def propagated_def)
  next
    case id: (Inr device_id)
    show ?thesis
    proof (cases "py_getitem device ''name''")
      case (Inl e)
      with assms id show ?thesis by (auto simp: device_body_def propagated_def)
    next
      case nm: (Inr device_name)
      show ?thesis
      proof (cases "py_getitem device ''group_id''")
        case (Inl e)
        with assms id nm show ?thesis by (auto simp: device_body_def propagated_def)
      next
        case gr: (Inr device_group)
        show ?thesis
        proof (cases "py_getitem device ''api_token''")
          case (Inl e)
          with assms id nm gr show ?thesis by (auto simp: device_body_def propagated_def)
        next
          case tk: (Inr device_token)
          obtain fres frest ftr where
            f: "MessageFetcher_fetch \<lparr>m_group_id = device_group, m_device_id = device_id,
                  m_api_token = device_token\<rparr> (script, tr) = (fres, frest, ftr)"
            using prod_cases3 by blast
          from MessageFetcher_fetch_propagated [OF f] obtain new where
            new: "ftr = tr @ new" "propagated fres new" by blast
          from assms id nm gr tk f have tr': "tr' = ftr"
            by (auto simp: device_body_def split: option.splits sum.splits)
          show ?thesis
          proof (cases fres)
            case None
            with assms id nm gr tk f have "res = None" by (simp add: device_body_def)
            with new None tr' show ?thesis by (auto simp: propagated_def)
          next
            case (Some a)
            show ?thesis
            proof (cases a)
              case (Inl e)
              with Some assms id nm gr tk f have "res = Some (Inl e)" by (simp add: device_body_def)
              with new Some Inl tr' show ?thesis by (auto simp: propagated_def)
            next
              case (Inr messages)
              with Some new have "clean new" by (auto simp: propagated_def)
              with new tr' show ?thesis by (auto simp: propagated_def)
            qed
          qed
        qed
      qed
    qed
  qed
qed

lemma devices_loop_propagated:
  "devices_loop local_date devices sheets (script, tr) = (res, rest, tr') \<Longrightarrow>
     \<exists>new. tr' = tr @ new \<and> propagated res new"
proof (induction devices arbitrary: sheets script tr)
  case Nil
  then show ?case by (auto intro: exI [of _ "[]"] simp: propagated_def)
next
  case (Cons device devices)
  obtain bres brest btr where
    b: "device_body local_date device (script, tr) = (bres, brest, btr)"
    using prod_cases3 by blast
  from device_body_propagated [OF b] obtain new where
    new: "btr = tr @ new" "propagated bres new" by blast
  show ?case
  proof (cases bres)
    case None
    with Cons.prems b have "res = None" "tr' = btr" by simp_all
    with new None show ?thesis by (auto simp: propagated_def)
  next
    case (Some a)
    show ?thesis
    proof (cases a)
      case (Inl e)
      with Some Cons.prems b have "res = Some (Inl e)" "tr' = btr" by simp_all
      with new Some Inl show ?thesis by (auto simp: propagated_def)
    next
      case (Inr sh)
      with Some Cons.prems b have
        "devices_loop local_date devices (sheets @ [sh]) (brest, btr) = (res, rest, tr')"
        by simp
      from Cons.IH [OF this] obtain new' where
        new': "tr' = btr @ new'" "propagated res new'" by blast
      from Some Inr new have "clean new" by (auto simp: propagated_def)
      with new' new show ?thesis
        using propagated_append [of new res new'] by auto
    qed
  qed
qed

lemma main_status:
  assumes "main local_date to_excel xlsx_file group_id api_token (script, tr) = (res, rest, tr')"
  shows "\<exists>new. tr' = tr @ new \<and>
           ((aborted new \<and> res = Some (Inl FetchException)) \<or> clean new \<or>
            (\<exists>pre sheets. clean pre \<and> new = pre @ [Write xlsx_file sheets]))"
proof -
  obtain dres drest dtr where
    d: "DeviceFetcher_fetch \<lparr>d_group_id = group_id, d_api_token = api_token\<rparr> (script, tr) =
          (dres, drest, dtr)"
    using prod_cases3 by blast
  from DeviceFetcher_fetch_propagated [OF d] obtain new1 where
    new1: "dtr = tr @ new1" "propagated dres new1" by blast
  show ?thesis
  proof (cases dres)
    case None
    with assms d have "res = None" "tr' = dtr" by (simp_all add: main_def)
    with new1 None show ?thesis by (auto simp: propagated_def)
  next
    case (Some a)
    show ?thesis
    proof (cases a)
      case (Inl e)
      with Some assms d have "res = Some (Inl e)" "tr' = dtr" by (simp_all add: main_def)
      with new1 Some Inl show ?thesis by (auto simp: propagated_def)
    next
      case (Inr devices)
      with Some new1 have c1: "clean new1" by (auto simp: propagated_def)
      obtain lres lrest ltr where
        l: "devices_loop local_date devices [] (drest, dtr) = (lres, lrest, ltr)"
        using prod_cases3 by blast
      from devices_loop_propagated [OF l] obtain new2 where
        new2: "ltr = dtr @ new2" "propagated lres new2" by blast
      show ?thesis
      proof (cases lres)
        case None
        with assms d Some Inr l have "res = None" "tr' = ltr" by (simp_all add: main_def)
        with new1 new2 c1 None show ?thesis by (auto simp: propagated_def aborted_append)
      next
        case lsome: (Some b)
        show ?thesis
        proof (cases b)
          case (Inl e)
          with lsome assms d Some Inr l have "res = Some (Inl e)" "tr' = ltr"
            by (simp_all add: main_def)
          with new1 new2 c1 lsome Inl show ?thesis by (auto simp: propagated_def aborted_append)
        next
          case sh: (Inr sheets)
          with lsome new2 have c2: "clean new2" by (auto simp: propagated_def)
          from sh lsome assms d Some Inr l have "tr' = ltr @ [Write xlsx_file sheets]"
            by (auto simp: main_def Let_def split: option.splits)
          with new1 new2 have "tr' = tr @ (new1 @ new2) @ [Write xlsx_file sheets]" by simp
          moreover have "clean (new1 @ new2)" using c1 c2 by simp
          ultimately show ?thesis by blast
        qed
      qed
    qed
  qed
qed

lemma failure_aborts:
  assumes "(aborted new \<and> res = Some (Inl FetchException)) \<or> clean new \<or>
            (\<exists>pre sheets. clean pre \<and> new = pre @ [Write f sheets])"
    and "Http q resp \<in> set new" and "status_code resp \<noteq> 200"
  shows "res = Some (Inl FetchException) \<and> last new = Http q resp \<and> written new = []"
proof -
  have "\<not> clean new" using assms(2,3) clean_no_failure by blast
  moreover have "\<not> (\<exists>pre sheets. clean pre \<and> new = pre @ [Write f sheets])"
    using assms(2,3) clean_no_failure by fastforce
  ultimately have "aborted new" "res = Some (Inl FetchException)" using assms(1) by auto
  with aborted_failure_last [OF _ assms(2,3)] show ?thesis by simp
qed

text \<open>
  C4. If an exchange of a run has a status other than 200, then: the fetch of either
  fetcher ends with the fetch failure, which carries no record, and the failing exchange
  is its last; and the whole run of \<open>main\<close> ends with the fetch failure, the failing
  exchange is the last event, and the writer is not called, so that no file is written.
\<close>

theorem fetch_failure_aborts_run:
  assumes "Http q resp \<in> set new" and "status_code resp \<noteq> 200"
  shows "(DeviceFetcher_fetch df (script, tr) = (dres, drest, tr @ new) \<longrightarrow>
            dres = Some (Inl FetchException) \<and> last new = Http q resp)
       \<and> (MessageFetcher_fetch mf (script, tr) = (mres, mrest, tr @ new) \<longrightarrow>
            mres = Some (Inl FetchException) \<and> last new = Http q resp)
       \<and> (main local_date to_excel xlsx_file group_id api_token (script, tr) = (res, rest, tr @ new) \<longrightarrow>
            res = Some (Inl FetchException) \<and> last new = Http q resp \<and> written new = [])"
proof (intro conjI impI)
  assume "DeviceFetcher_fetch df (script, tr) = (dres, drest, tr @ new)"
  from DeviceFetcher_fetch_propagated [OF this] have "propagated dres new" by simp
  then have "(aborted new \<and> dres = Some (Inl FetchException)) \<or> clean new \<or>
            (\<exists>pre sheets. clean pre \<and> new = pre @ [Write [] sheets])"
    by (auto simp: propagated_def)
  from failure_aborts [OF this assms]
  show "dres = Some (Inl FetchException)" "last new = Http q resp" by simp_all
next
  assume "MessageFetcher_fetch mf (script, tr) = (mres, mrest, tr @ new)"
  from MessageFetcher_fetch_propagated [OF this] have "propagated mres new" by simp
  then have "(aborted new \<and> mres = Some (Inl FetchException)) \<or> clean new \<or>
            (\<exists>pre sheets. clean pre \<and> new = pre @ [Write [] sheets])"
    by (auto simp: propagated_def)
  from failure_aborts [OF this assms]
  show "mres = Some (Inl FetchException)" "last new = Http q resp" by simp_all
next
  assume "main local_date to_excel xlsx_file group_id api_token (script, tr) = (res, rest, tr @ new)"
  from main_status [OF this] have "(aborted new \<and> res = Some (Inl FetchException)) \<or> clean new \<or>
            (\<exists>pre sheets. clean pre \<and> new = pre @ [Write xlsx_file sheets])"
    by simp
  from failure_aborts [OF this assms]
  show "res = Some (Inl FetchException)" "last new = Http q resp" "written new = []" by simp_all
qed

lemma main_failed_run:
  "main stub_local_date no_writer_error ''out.xlsx'' ''group'' ''token''
     ([ok_page [device_a], response_500], []) =
   (Some (Inl FetchException), [],
    [Http (device_request \<lparr>d_group_id = ''group'', d_api_token = ''token''\<rparr> 100 0) (ok_page [device_a]),
     Http (message_request \<lparr>m_group_id = JStr ''group-a'', m_device_id = JStr ''dev-a'',
             m_api_token = JStr ''token-a''\<rparr> 100 0) response_500])"
  by (simp add: main_def DeviceFetcher_fetch_paginate MessageFetcher_fetch_paginate ok_page_def
        device_a_def device_body_def response_500_def)



theorem fetch_failure_aborts_run_witness:
  "DeviceFetcher_fetch fetcher_d ([response_500], []) =
     (Some (Inl FetchException), [], [Http (device_request fetcher_d 100 0) response_500])
   \<and> MessageFetcher_fetch fetcher_a ([response_500], []) =
     (Some (Inl FetchException), [], [Http (message_request fetcher_a 100 0) response_500])
   \<and> main stub_local_date no_writer_error ''out.xlsx'' ''group'' ''token''
       ([ok_page [device_a], response_500], []) =
     (Some (Inl FetchException), [],
      [Http (device_request fetcher_d 100 0) (ok_page [device_a]),
       Http (message_request fetcher_a 100 0) response_500])
   \<and> written [Http (device_request fetcher_d 100 0) (ok_page [device_a]),
               Http (message_request fetcher_a 100 0) response_500] = []"
proof -
  have s: "status_code response_500 \<noteq> 200" by (simp add: response_500_def)
  have d: "DeviceFetcher_fetch fetcher_d ([response_500], []) =
     (Some (Inl FetchException), [], [] @ [Http (device_request fetcher_d 100 0) response_500])"
    by (simp add: DeviceFetcher_fetch_paginate response_500_def)
  have m: "MessageFetcher_fetch fetcher_a ([response_500], []) =
     (Some (Inl FetchException), [], [] @ [Http (message_request fetcher_a 100 0) response_500])"
    by (simp add: MessageFetcher_fetch_paginate response_500_def)
  have r: "main stub_local_date no_writer_error ''out.xlsx'' ''group'' ''token''
       ([ok_page [device_a], response_500], []) =
     (Some (Inl FetchException), [],
      [] @ [Http (device_request fetcher_d 100 0) (ok_page [device_a]),
       Http (message_request fetcher_a 100 0) response_500])"
    using main_failed_run by (simp add: fetcher_d_def fetcher_a_def)
  have mem: "Http (message_request fetcher_a 100 0) response_500 \<in>
      set [Http (device_request fetcher_d 100 0) (ok_page [device_a]),
           Http (message_request fetcher_a 100 0) response_500]"
    by simp
  note run = fetch_failure_aborts_run [OF mem s, where script = "[ok_page [device_a], response_500]"
      and tr = "[]" and local_date = stub_local_date and to_excel = no_writer_error
      and xlsx_file = "''out.xlsx''" and group_id = "''group''" and api_token = "''token''"
      and res = "Some (Inl FetchException)" and rest = "[]"]
  have w: "written [Http (device_request fetcher_d 100 0) (ok_page [device_a]),
               Http (message_request fetcher_a 100 0) response_500] = []"
    using run [THEN conjunct2, THEN conjunct2, THEN mp, OF r] by (rule conjunct2 [THEN conjunct2])
  from d m r w show ?thesis by simp
qed


lemma clean_only_http: "clean xs \<Longrightarrow> filter on_stderr xs = []"
proof (induction xs)
  case Nil
  then show ?case by simp
next
  case (Cons e xs)
  then show ?case by (cases e) auto
qed

lemma aborted_only_http:
  assumes "aborted tr"
  shows "filter on_stderr tr = []"
proof -
  from assms obtain q resp where
    ne: "tr \<noteq> []" and c: "clean (butlast tr)" and l: "last tr = Http q resp"
    by (auto simp: aborted_def)
  have "filter on_stderr (butlast tr @ [last tr]) = []"
    by (simp add: clean_only_http [OF c] l)
  with ne show ?thesis by simp
qed

text \<open>
  C5, as stated, fails: with status 500 on the first request the process prints the
  message and ends with exit status 0.
\<close>

theorem program_fetch_failure_counterexample:
  "program stub_local_date no_writer_error ''out.xlsx'' ''group'' ''token'' [response_500] =
     Some (0, [Http (device_request \<lparr>d_group_id = ''group'', d_api_token = ''token''\<rparr> 100 0) response_500,
               Stderr ''Request to REST API failed. Please, check your parameters!''])"
  by (simp add: program_def main_def DeviceFetcher_fetch_paginate response_500_def)

text \<open>
  C5, amended. When a request of the run receives a status other than 200, the process
  prints the one fixed message to standard error, and nothing else there, does not call
  the writer, and ends with exit status 0: the handler of the fetch failure sets no exit
  status.
\<close>

theorem program_fetch_failure:
  assumes "main local_date to_excel xlsx_file group_id api_token (script, []) = (res, rest, tr)"
    and "Http q resp \<in> set tr" and "status_code resp \<noteq> 200"
  shows "program local_date to_excel xlsx_file group_id api_token script =
           Some (0, tr @ [Stderr ''Request to REST API failed. Please, check your parameters!''])
         \<and> filter on_stderr (tr @ [Stderr ''Request to REST API failed. Please, check your parameters!'']) =
             [Stderr ''Request to REST API failed. Please, check your parameters!'']
         \<and> written tr = []"
proof -
  from main_status [OF assms(1)] have
    st: "(aborted tr \<and> res = Some (Inl FetchException)) \<or> clean tr \<or>
            (\<exists>pre sheets. clean pre \<and> tr = pre @ [Write xlsx_file sheets])"
    by simp
  from failure_aborts [OF st assms(2,3)] have
    r: "res = Some (Inl FetchException)" and w: "written tr = []" by simp_all
  have "\<not> clean tr" using assms(2,3) clean_no_failure by blast
  moreover have "\<not> (\<exists>pre sheets. clean pre \<and> tr = pre @ [Write xlsx_file sheets])"
    using assms(2,3) clean_no_failure by fastforce
  ultimately have "aborted tr" using st by auto
  then have "filter on_stderr tr = []" by (rule aborted_only_http)
  with r w assms(1) show ?thesis by (simp add: program_def)
qed

theorem program_fetch_failure_witness:
  "program stub_local_date no_writer_error ''out.xlsx'' ''group'' ''token''
     [ok_page [device_a], response_500] =
     Some (0, [Http (device_request \<lparr>d_group_id = ''group'', d_api_token = ''token''\<rparr> 100 0) (ok_page [device_a]),
               Http (message_request \<lparr>m_group_id = JStr ''group-a'', m_device_id = JStr ''dev-a'',
                       m_api_token = JStr ''token-a''\<rparr> 100 0) response_500,
               Stderr ''Request to REST API failed. Please, check your parameters!''])"
  using program_fetch_failure [where local_date = stub_local_date and to_excel = no_writer_error
      and xlsx_file = "''out.xlsx''" and group_id = "''group''" and api_token = "''token''"
      and script = "[ok_page [device_a], response_500]"
      and q = "message_request \<lparr>m_group_id = JStr ''group-a'', m_device_id = JStr ''dev-a'',
             m_api_token = JStr ''token-a''\<rparr> 100 0"
      and resp = response_500, OF main_failed_run]
  by (simp add: response_500_def)

section \<open>The orchestrator\<close>

lemma measurements_loop_rows:
  "measurements_loop local_date messages acc = Inr ms \<Longrightarrow> ms = acc @ rows local_date messages"
proof (induction messages arbitrary: acc)
  case Nil
  then show ?case by (simp add: rows_def map_filter_simps)
next
  case (Cons m messages)
  show ?case
  proof (cases "extract_measurement local_date m")
    case (Inl e)
    with Cons.prems show ?thesis by simp
  next
    case (Inr opt)
    show ?thesis
    proof (cases opt)
      case None
      with Inr Cons.prems have "measurements_loop local_date messages acc = Inr ms" by simp
      from Cons.IH [OF this] Inr None show ?thesis
        by (simp add: rows_def map_filter_simps)
    next
      case (Some x)
      with Inr Cons.prems have "measurements_loop local_date messages (acc @ [x]) = Inr ms"
        by simp
      from Cons.IH [OF this] Inr Some show ?thesis
        by (simp add: rows_def map_filter_simps)
    qed
  qed
qed

lemma device_body_sheet:
  assumes "device_body local_date device w = (Some (Inr sh), w')"
  shows "\<exists>f messages device_id.
           fetcher_of device = Some f
           \<and> MessageFetcher_fetch f w = (Some (Inr messages), w')
           \<and> sheet_data sh = rows local_date messages
           \<and> py_getitem device ''id'' = Inr device_id
           \<and> py_slice30 device_id = Inr (sheet_name sh)"
  using assms
  by (auto simp: device_body_def fetcher_of_def split: sum.splits option.splits prod.splits
           dest!: measurements_loop_rows)

lemma devices_loop_sheets:
  "devices_loop local_date devices acc w = (Some (Inr sheets), w') \<Longrightarrow>
     \<exists>new runs. sheets = acc @ new \<and> message_runs devices w = Some (runs, w')
       \<and> length new = length devices \<and> length runs = length devices
       \<and> (\<forall>i<length devices. sheet_of local_date (devices ! i) (runs ! i) (new ! i))"
proof (induction devices arbitrary: acc w)
  case Nil
  then show ?case by simp
next
  case (Cons device devices)
  from Cons.prems obtain sh w1 where
    b: "device_body local_date device w = (Some (Inr sh), w1)" and
    l: "devices_loop local_date devices (acc @ [sh]) w1 = (Some (Inr sheets), w')"
    by (auto split: prod.splits option.splits sum.splits)
  from device_body_sheet [OF b] obtain f messages where
    f: "fetcher_of device = Some f" "MessageFetcher_fetch f w = (Some (Inr messages), w1)"
    and s: "sheet_of local_date device messages sh"
    by (auto simp: sheet_of_def)
  from Cons.IH [OF l] obtain new runs where
    ih: "sheets = (acc @ [sh]) @ new" "message_runs devices w1 = Some (runs, w')"
      "length new = length devices" "length runs = length devices"
      "\<forall>i<length devices. sheet_of local_date (devices ! i) (runs ! i) (new ! i)"
    by blast
  have "\<forall>i<length (device # devices).
          sheet_of local_date ((device # devices) ! i) ((messages # runs) ! i) ((sh # new) ! i)"
    using s ih(5) by (auto simp: nth_Cons split: nat.splits)
  with ih f show ?case
    by (intro exI [of _ "sh # new"] exI [of _ "messages # runs"]) simp
qed


lemma main_success:
  assumes "main local_date to_excel xlsx_file group_id api_token (script, tr) = (Some (Inr u), rest, tr')"
  shows "\<exists>devices w1 sheets ltr.
           DeviceFetcher_fetch \<lparr>d_group_id = group_id, d_api_token = api_token\<rparr> (script, tr) =
             (Some (Inr devices), w1)
           \<and> devices_loop local_date devices [] w1 = (Some (Inr sheets), rest, ltr)
           \<and> tr' = ltr @ [Write xlsx_file sheets]
           \<and> written tr' = written tr @ [(xlsx_file, sheets)]"
proof -
  from assms obtain devices drest dtr sheets ltr where
    d: "DeviceFetcher_fetch \<lparr>d_group_id = group_id, d_api_token = api_token\<rparr> (script, tr) =
          (Some (Inr devices), drest, dtr)" and
    l: "devices_loop local_date devices [] (drest, dtr) = (Some (Inr sheets), rest, ltr)" and
    t: "tr' = ltr @ [Write xlsx_file sheets]"
    by (auto simp: main_def Let_def split: prod.splits option.splits sum.splits)
  from DeviceFetcher_fetch_propagated [OF d] obtain new1 where
    new1: "dtr = tr @ new1" "clean new1" by (auto simp: propagated_def)
  from devices_loop_propagated [OF l] obtain new2 where
    new2: "ltr = dtr @ new2" "clean new2" by (auto simp: propagated_def)
  have "written tr' = written tr @ [(xlsx_file, sheets)]"
    using t new1 new2 by (simp add: written_append clean_written)
  with d l t show ?thesis by blast
qed

lemma extract_sample:
  "extract_measurement stub_local_date (JObj sample_message) =
     Inr (Some \<lparr>label = JStr ''a'', date = ''2020-03-01 11:00:00'', t1 = JFloat (106 / 5),
                  t2 = JNull, v1 = JFloat (161 / 50), v2 = JInt 3, r = JFloat (141 / 50)\<rparr>)"
  by (simp add: sample_message_def sample_data_def sample_battery_def stub_local_date_def
        temperature_def extract_measurement_def round_opt_def resistance_def
        LOAD_RESISTOR_def round_to_def round_half_even_def Let_def)

lemma extract_second:
  "extract_measurement stub_local_date (JObj message_second) =
     Inr (Some \<lparr>label = JStr ''c'', date = ''2020-03-01 11:00:00'', t1 = JNull,
                  t2 = JNull, v1 = JInt 4, v2 = JInt 3, r = JFloat 13\<rparr>)"
  by (simp add: message_second_def stub_local_date_def
        temperature_def extract_measurement_def round_opt_def resistance_def
        LOAD_RESISTOR_def round_to_def round_half_even_def Let_def)

lemma extract_no_battery_sample:
  "extract_measurement stub_local_date (JObj message_no_battery) = Inr None"
  by (simp add: message_no_battery_def extract_measurement_def)

lemma scenario_run:
  "main stub_local_date no_writer_error ''out.xlsx'' ''group'' ''token'' (scenario_script, []) =
     (Some (Inr ()), [],
      [Http (device_request fetcher_d 100 0) (ok_page [device_a, device_b]),
       Http (message_request fetcher_a 100 0)
         (ok_page [JObj sample_message, JObj message_no_battery, JObj message_second]),
       Http (message_request \<lparr>m_group_id = JStr ''group-b'', m_device_id = JStr ''dev-b'',
               m_api_token = JStr ''token-b''\<rparr> 100 0) (ok_page []),
       Write ''out.xlsx'' [sheet_a, sheet_b]])"
  by (simp add: main_def scenario_script_def DeviceFetcher_fetch_paginate
        MessageFetcher_fetch_paginate ok_page_def device_a_def device_b_def device_body_def
        extract_sample extract_second extract_no_battery_sample fetcher_d_def fetcher_a_def
        no_writer_error_def sheet_a_def sheet_b_def)

lemma measurements_loop_complete:
  "\<forall>m\<in>set messages. \<exists>x. extract_measurement local_date m = Inr x \<Longrightarrow>
     measurements_loop local_date messages acc = Inr (acc @ rows local_date messages)"
proof (induction messages arbitrary: acc)
  case Nil
  then show ?case by (simp add: rows_def map_filter_simps)
next
  case (Cons m messages)
  then obtain x where x: "extract_measurement local_date m = Inr x" by auto
  from Cons have ih: "\<And>acc. measurements_loop local_date messages acc =
      Inr (acc @ rows local_date messages)" by simp
  show ?case
    using x ih by (cases x) (simp_all add: rows_def map_filter_simps)
qed

lemma device_body_complete:
  assumes "fetcher_of device = Some f"
    and "MessageFetcher_fetch f w = (Some (Inr messages), w')"
    and "py_getitem device ''name'' = Inr nm"
    and "py_getitem device ''id'' = Inr (JStr s)"
    and "\<forall>m\<in>set messages. \<exists>x. extract_measurement local_date m = Inr x"
  shows "device_body local_date device w =
           (Some (Inr \<lparr>sheet_name = JStr (take 30 s), sheet_data = rows local_date messages\<rparr>), w')"
proof -
  from assms(1,4) have f: "py_getitem device ''group_id'' = Inr (m_group_id f)"
    "py_getitem device ''api_token'' = Inr (m_api_token f)"
    "f = \<lparr>m_group_id = m_group_id f, m_device_id = JStr s, m_api_token = m_api_token f\<rparr>"
    by (auto simp: fetcher_of_def split: sum.splits)
  from assms(2) f(3) have
    "MessageFetcher_fetch \<lparr>m_group_id = m_group_id f, m_device_id = JStr s,
        m_api_token = m_api_token f\<rparr> w = (Some (Inr messages), w')"
    by simp
  with f(1,2) assms(3,4) measurements_loop_complete [OF assms(5), of "[]"] show ?thesis
    by (simp add: device_body_def)
qed

lemma devices_loop_complete:
  assumes "message_runs devices w = Some (runs, w')"
    and "map (\<lambda>device. py_getitem device ''id'') devices = map (\<lambda>s. Inr (JStr s)) ids"
    and "\<forall>device\<in>set devices. \<exists>nm. py_getitem device ''name'' = Inr nm"
    and "\<forall>messages\<in>set runs. \<forall>m\<in>set messages. \<exists>x. extract_measurement local_date m = Inr x"
  shows "devices_loop local_date devices acc w =
           (Some (Inr (acc @ sheets_for local_date ids runs)), w')"
  using assms
proof (induction devices arbitrary: w runs ids acc)
  case Nil
  then show ?case by (simp add: sheets_for_def)
next
  case (Cons device devices)
  from Cons.prems(2) obtain s ids' where ids: "ids = s # ids'"
    "py_getitem device ''id'' = Inr (JStr s)"
    "map (\<lambda>device. py_getitem device ''id'') devices = map (\<lambda>s. Inr (JStr s)) ids'"
    by (cases ids) auto
  from Cons.prems(1) obtain f messages w1 runs' where
    f: "fetcher_of device = Some f" "MessageFetcher_fetch f w = (Some (Inr messages), w1)"
       "message_runs devices w1 = Some (runs', w')" "runs = messages # runs'"
    by (auto split: option.splits prod.splits sum.splits)
  from Cons.prems(3) obtain nm where nm: "py_getitem device ''name'' = Inr nm" by auto
  from Cons.prems(4) f(4) have ok: "\<forall>m\<in>set messages. \<exists>x. extract_measurement local_date m = Inr x"
    "\<forall>messages\<in>set runs'. \<forall>m\<in>set messages. \<exists>x. extract_measurement local_date m = Inr x"
    by simp_all
  from Cons.prems(3) have names: "\<forall>device\<in>set devices. \<exists>nm. py_getitem device ''name'' = Inr nm"
    by simp
  have body: "device_body local_date device w =
      (Some (Inr \<lparr>sheet_name = JStr (take 30 s), sheet_data = rows local_date messages\<rparr>), w1)"
    by (rule device_body_complete [OF f(1,2) nm ids(2) ok(1)])
  have "devices_loop local_date devices
          (acc @ [\<lparr>sheet_name = JStr (take 30 s), sheet_data = rows local_date messages\<rparr>]) w1 =
        (Some (Inr ((acc @ [\<lparr>sheet_name = JStr (take 30 s), sheet_data = rows local_date messages\<rparr>])
                     @ sheets_for local_date ids' runs')), w')"
    by (rule Cons.IH [OF f(3) ids(3) names ok(2)])
  with body ids(1) f(4) show ?case
    by (simp add: sheets_for_def)
qed

lemma main_complete:
  assumes "DeviceFetcher_fetch \<lparr>d_group_id = group_id, d_api_token = api_token\<rparr> (script, tr) =
             (Some (Inr devices), w1)"
    and "message_runs devices w1 = Some (runs, rest, ltr)"
    and "map (\<lambda>device. py_getitem device ''id'') devices = map (\<lambda>s. Inr (JStr s)) ids"
    and "\<forall>device\<in>set devices. \<exists>nm. py_getitem device ''name'' = Inr nm"
    and "\<forall>messages\<in>set runs. \<forall>m\<in>set messages. \<exists>x. extract_measurement local_date m = Inr x"
    and "to_excel xlsx_file (sheets_for local_date ids runs) = None"
  shows "main local_date to_excel xlsx_file group_id api_token (script, tr) =
           (Some (Inr ()), rest, ltr @ [Write xlsx_file (sheets_for local_date ids runs)])"
  using assms(1,6) devices_loop_complete [OF assms(2,3,4,5), of "[]"]
  by (simp add: main_def)


lemma message_runs_length:
  "message_runs devices w = Some (runs, w') \<Longrightarrow> length runs = length devices"
proof (induction devices arbitrary: w runs)
  case Nil
  then show ?case by simp
next
  case (Cons device devices)
  then show ?case
    by (auto split: option.splits prod.splits sum.splits)
qed

lemma sheets_for_data:
  "length ids = length runs \<Longrightarrow>
     map sheet_data (sheets_for local_date ids runs) = map (rows local_date) runs"
  by (induction ids runs rule: list_induct2) (simp_all add: sheets_for_def)

lemma sheets_for_names:
  "length ids = length runs \<Longrightarrow>
     map sheet_name (sheets_for local_date ids runs) = map (\<lambda>s. JStr (take 30 s)) ids"
  by (induction ids runs rule: list_induct2) (simp_all add: sheets_for_def)

text \<open>
  C6. A run of \<open>main\<close> that completes calls the writer once, with exactly one sheet for
  every fetched device, in the order of the device list, and the rows of the sheet of a
  device are the extraction results that are not absent of the messages fetched for this
  device, in message order. And the run does complete, with these sheets, when the device
  list and the messages of every device are fetched, every device has a name and a string
  id, no extraction raises and the writer raises nothing. In the scenario of two devices,
  the first with three messages of which two are valid and one has no battery, the second
  with no message, the writer gets two sheets, of two rows and of no row.
\<close>

theorem main_sheets:
  "(\<forall>rest tr'.
      main local_date to_excel xlsx_file group_id api_token (script, tr) = (Some (Inr ()), rest, tr') \<longrightarrow>
        (\<exists>devices w1 runs w2 sheets.
           DeviceFetcher_fetch \<lparr>d_group_id = group_id, d_api_token = api_token\<rparr> (script, tr) =
             (Some (Inr devices), w1)
           \<and> message_runs devices w1 = Some (runs, w2)
           \<and> written tr' = written tr @ [(xlsx_file, sheets)]
           \<and> length sheets = length devices \<and> length runs = length devices
           \<and> (\<forall>i<length devices. sheet_data (sheets ! i) = rows local_date (runs ! i))))
   \<and> (\<forall>devices w1 runs rest ltr ids.
         DeviceFetcher_fetch \<lparr>d_group_id = group_id, d_api_token = api_token\<rparr> (script, tr) =
           (Some (Inr devices), w1)
         \<and> message_runs devices w1 = Some (runs, rest, ltr)
         \<and> map (\<lambda>device. py_getitem device ''id'') devices = map (\<lambda>s. Inr (JStr s)) ids
         \<and> (\<forall>device\<in>set devices. \<exists>nm. py_getitem device ''name'' = Inr nm)
         \<and> (\<forall>messages\<in>set runs. \<forall>m\<in>set messages. \<exists>x. extract_measurement local_date m = Inr x)
         \<and> to_excel xlsx_file (sheets_for local_date ids runs) = None
         \<longrightarrow> main local_date to_excel xlsx_file group_id api_token (script, tr) =
               (Some (Inr ()), rest, ltr @ [Write xlsx_file (sheets_for local_date ids runs)])
             \<and> length (sheets_for local_date ids runs) = length devices
             \<and> map sheet_data (sheets_for local_date ids runs) = map (rows local_date) runs)"
proof (intro conjI allI impI)
  fix rest tr'
  assume a: "main local_date to_excel xlsx_file group_id api_token (script, tr) =
      (Some (Inr ()), rest, tr')"
  from main_success [OF a] obtain devices w1 sheets ltr where
    d: "DeviceFetcher_fetch \<lparr>d_group_id = group_id, d_api_token = api_token\<rparr> (script, tr) =
          (Some (Inr devices), w1)" and
    l: "devices_loop local_date devices [] w1 = (Some (Inr sheets), rest, ltr)" and
    w: "written tr' = written tr @ [(xlsx_file, sheets)]"
    by blast
  from devices_loop_sheets [OF l] obtain runs where
    "message_runs devices w1 = Some (runs, rest, ltr)" "length sheets = length devices"
    "length runs = length devices"
    "\<forall>i<length devices. sheet_of local_date (devices ! i) (runs ! i) (sheets ! i)"
    by auto
  with d w show "\<exists>devices w1 runs w2 sheets.
           DeviceFetcher_fetch \<lparr>d_group_id = group_id, d_api_token = api_token\<rparr> (script, tr) =
             (Some (Inr devices), w1)
           \<and> message_runs devices w1 = Some (runs, w2)
           \<and> written tr' = written tr @ [(xlsx_file, sheets)]
           \<and> length sheets = length devices \<and> length runs = length devices
           \<and> (\<forall>i<length devices. sheet_data (sheets ! i) = rows local_date (runs ! i))"
    unfolding sheet_of_def by blast
next
  fix devices w1 runs rest ltr ids
  assume h: "DeviceFetcher_fetch \<lparr>d_group_id = group_id, d_api_token = api_token\<rparr> (script, tr) =
           (Some (Inr devices), w1)
         \<and> message_runs devices w1 = Some (runs, rest, ltr)
         \<and> map (\<lambda>device. py_getitem device ''id'') devices = map (\<lambda>s. Inr (JStr s)) ids
         \<and> (\<forall>device\<in>set devices. \<exists>nm. py_getitem device ''name'' = Inr nm)
         \<and> (\<forall>messages\<in>set runs. \<forall>m\<in>set messages. \<exists>x. extract_measurement local_date m = Inr x)
         \<and> to_excel xlsx_file (sheets_for local_date ids runs) = None"
  then have len: "length runs = length devices" "length ids = length devices"
    using message_runs_length map_eq_imp_length_eq by (blast, metis)
  from h show "main local_date to_excel xlsx_file group_id api_token (script, tr) =
               (Some (Inr ()), rest, ltr @ [Write xlsx_file (sheets_for local_date ids runs)])"
    using main_complete by blast
  from len show "length (sheets_for local_date ids runs) = length devices"
    by (simp add: sheets_for_def)
  from len show "map sheet_data (sheets_for local_date ids runs) = map (rows local_date) runs"
    by (simp add: sheets_for_data)
qed

lemma scenario_fetch:
  "DeviceFetcher_fetch \<lparr>d_group_id = ''group'', d_api_token = ''token''\<rparr> (scenario_script, []) =
     (Some (Inr [device_a, device_b]),
      [ok_page [JObj sample_message, JObj message_no_battery, JObj message_second], ok_page []],
      [Http (device_request fetcher_d 100 0) (ok_page [device_a, device_b])])"
  by (simp add: scenario_script_def DeviceFetcher_fetch_paginate ok_page_def fetcher_d_def)

lemma scenario_message_runs:
  "message_runs [device_a, device_b]
     ([ok_page [JObj sample_message, JObj message_no_battery, JObj message_second], ok_page []],
      [Http (device_request fetcher_d 100 0) (ok_page [device_a, device_b])]) =
   Some ([[JObj sample_message, JObj message_no_battery, JObj message_second], []], [],
         [Http (device_request fetcher_d 100 0) (ok_page [device_a, device_b]),
          Http (message_request fetcher_a 100 0)
            (ok_page [JObj sample_message, JObj message_no_battery, JObj message_second]),
          Http (message_request \<lparr>m_group_id = JStr ''group-b'', m_device_id = JStr ''dev-b'',
               m_api_token = JStr ''token-b''\<rparr> 100 0) (ok_page [])])"
  by (simp add: fetcher_of_def device_a_def device_b_def MessageFetcher_fetch_paginate
        ok_page_def fetcher_a_def)

lemma scenario_sheets:
  "sheets_for stub_local_date [''dev-a'', ''dev-b'']
     [[JObj sample_message, JObj message_no_battery, JObj message_second], []] = [sheet_a, sheet_b]"
  by (simp add: sheets_for_def rows_def map_filter_simps extract_sample extract_second
        extract_no_battery_sample sheet_a_def sheet_b_def)

theorem main_sheets_witness:
  "main stub_local_date no_writer_error ''out.xlsx'' ''group'' ''token'' (scenario_script, []) =
     (Some (Inr ()), [],
      [Http (device_request fetcher_d 100 0) (ok_page [device_a, device_b]),
       Http (message_request fetcher_a 100 0)
         (ok_page [JObj sample_message, JObj message_no_battery, JObj message_second]),
       Http (message_request \<lparr>m_group_id = JStr ''group-b'', m_device_id = JStr ''dev-b'',
               m_api_token = JStr ''token-b''\<rparr> 100 0) (ok_page []),
       Write ''out.xlsx'' [sheet_a, sheet_b]])
   \<and> length [sheet_a, sheet_b] = 2
   \<and> length (sheet_data sheet_a) = 2 \<and> length (sheet_data sheet_b) = 0"
proof -
  have ids: "map (\<lambda>device. py_getitem device ''id'') [device_a, device_b] =
      map (\<lambda>s. Inr (JStr s)) [''dev-a'', ''dev-b'']"
    by (simp add: device_a_def device_b_def)
  have names: "\<forall>device\<in>set [device_a, device_b]. \<exists>nm. py_getitem device ''name'' = Inr nm"
    by (simp add: device_a_def device_b_def)
  have ok: "\<forall>messages\<in>set [[JObj sample_message, JObj message_no_battery, JObj message_second], []].
      \<forall>m\<in>set messages. \<exists>x. extract_measurement stub_local_date m = Inr x"
    by (simp add: extract_sample extract_second extract_no_battery_sample)
  have wr: "no_writer_error ''out.xlsx'' (sheets_for stub_local_date [''dev-a'', ''dev-b'']
     [[JObj sample_message, JObj message_no_battery, JObj message_second], []]) = None"
    by (simp add: no_writer_error_def)
  note run = main_sheets [where local_date = stub_local_date and to_excel = no_writer_error
      and xlsx_file = "''out.xlsx''" and group_id = "''group''" and api_token = "''token''"
      and script = scenario_script and tr = "[]",
      THEN conjunct2, rule_format, OF conjI [OF scenario_fetch conjI [OF scenario_message_runs
        conjI [OF ids conjI [OF names conjI [OF ok wr]]]]], THEN conjunct1]
  have len: "length [sheet_a, sheet_b] = 2" "length (sheet_data sheet_a) = 2"
    "length (sheet_data sheet_b) = 0"
    by (simp_all add: sheet_a_def sheet_b_def)
  from run [unfolded scenario_sheets] len show ?thesis
    by (simp only: append_Cons append_Nil simp_thms)
qed


text \<open>
  C7. In a run of \<open>main\<close> that completes, the sheet of every device whose id is a string
  is named by the first 30 characters of the id, the id itself when it has at most 30
  characters, whatever the names of the other sheets are: names that coincide or are
  empty stay as they are. And the run does complete, with the sheets named by the ids cut
  to 30 characters one by one, when the device list and the messages of every device are
  fetched, every device has a name and a string id, no extraction raises and the writer
  raises nothing.
\<close>

theorem main_sheet_names:
  "(\<forall>rest tr'.
      main local_date to_excel xlsx_file group_id api_token (script, tr) = (Some (Inr ()), rest, tr') \<longrightarrow>
        (\<exists>devices w1 sheets.
           DeviceFetcher_fetch \<lparr>d_group_id = group_id, d_api_token = api_token\<rparr> (script, tr) =
             (Some (Inr devices), w1)
           \<and> written tr' = written tr @ [(xlsx_file, sheets)]
           \<and> length sheets = length devices
           \<and> (\<forall>i<length devices. \<forall>s. py_getitem (devices ! i) ''id'' = Inr (JStr s) \<longrightarrow>
                  sheet_name (sheets ! i) = JStr (take 30 s)
                  \<and> (length s \<le> 30 \<longrightarrow> sheet_name (sheets ! i) = JStr s)
                  \<and> (30 < length s \<longrightarrow> length (take 30 s) = 30))))
   \<and> (\<forall>devices w1 runs rest ltr ids.
         DeviceFetcher_fetch \<lparr>d_group_id = group_id, d_api_token = api_token\<rparr> (script, tr) =
           (Some (Inr devices), w1)
         \<and> message_runs devices w1 = Some (runs, rest, ltr)
         \<and> map (\<lambda>device. py_getitem device ''id'') devices = map (\<lambda>s. Inr (JStr s)) ids
         \<and> (\<forall>device\<in>set devices. \<exists>nm. py_getitem device ''name'' = Inr nm)
         \<and> (\<forall>messages\<in>set runs. \<forall>m\<in>set messages. \<exists>x. extract_measurement local_date m = Inr x)
         \<and> to_excel xlsx_file (sheets_for local_date ids runs) = None
         \<longrightarrow> main local_date to_excel xlsx_file group_id api_token (script, tr) =
               (Some (Inr ()), rest, ltr @ [Write xlsx_file (sheets_for local_date ids runs)])
             \<and> map sheet_name (sheets_for local_date ids runs) = map (\<lambda>s. JStr (take 30 s)) ids)"
proof (intro conjI allI impI)
  fix rest tr'
  assume a: "main local_date to_excel xlsx_file group_id api_token (script, tr) =
      (Some (Inr ()), rest, tr')"
  from main_success [OF a] obtain devices w1 sheets ltr where
    d: "DeviceFetcher_fetch \<lparr>d_group_id = group_id, d_api_token = api_token\<rparr> (script, tr) =
          (Some (Inr devices), w1)" and
    l: "devices_loop local_date devices [] w1 = (Some (Inr sheets), rest, ltr)" and
    w: "written tr' = written tr @ [(xlsx_file, sheets)]"
    by blast
  from devices_loop_sheets [OF l] obtain runs where
    len: "length sheets = length devices" and
    so: "\<forall>i<length devices. sheet_of local_date (devices ! i) (runs ! i) (sheets ! i)"
    by auto
  have "\<forall>i<length devices. \<forall>s. py_getitem (devices ! i) ''id'' = Inr (JStr s) \<longrightarrow>
                  sheet_name (sheets ! i) = JStr (take 30 s)
                  \<and> (length s \<le> 30 \<longrightarrow> sheet_name (sheets ! i) = JStr s)
                  \<and> (30 < length s \<longrightarrow> length (take 30 s) = 30)"
  proof (intro allI impI)
    fix i s
    assume i: "i < length devices" and s: "py_getitem (devices ! i) ''id'' = Inr (JStr s)"
    from so i s have "py_slice30 (JStr s) = Inr (sheet_name (sheets ! i))"
      by (auto simp: sheet_of_def)
    then have "sheet_name (sheets ! i) = JStr (take 30 s)" by simp
    then show "sheet_name (sheets ! i) = JStr (take 30 s)
                  \<and> (length s \<le> 30 \<longrightarrow> sheet_name (sheets ! i) = JStr s)
                  \<and> (30 < length s \<longrightarrow> length (take 30 s) = 30)"
      by simp
  qed
  with d w len show "\<exists>devices w1 sheets.
           DeviceFetcher_fetch \<lparr>d_group_id = group_id, d_api_token = api_token\<rparr> (script, tr) =
             (Some (Inr devices), w1)
           \<and> written tr' = written tr @ [(xlsx_file, sheets)]
           \<and> length sheets = length devices
           \<and> (\<forall>i<length devices. \<forall>s. py_getitem (devices ! i) ''id'' = Inr (JStr s) \<longrightarrow>
                  sheet_name (sheets ! i) = JStr (take 30 s)
                  \<and> (length s \<le> 30 \<longrightarrow> sheet_name (sheets ! i) = JStr s)
                  \<and> (30 < length s \<longrightarrow> length (take 30 s) = 30))"
    by blast
next
  fix devices w1 runs rest ltr ids
  assume h: "DeviceFetcher_fetch \<lparr>d_group_id = group_id, d_api_token = api_token\<rparr> (script, tr) =
           (Some (Inr devices), w1)
         \<and> message_runs devices w1 = Some (runs, rest, ltr)
         \<and> map (\<lambda>device. py_getitem device ''id'') devices = map (\<lambda>s. Inr (JStr s)) ids
         \<and> (\<forall>device\<in>set devices. \<exists>nm. py_getitem device ''name'' = Inr nm)
         \<and> (\<forall>messages\<in>set runs. \<forall>m\<in>set messages. \<exists>x. extract_measurement local_date m = Inr x)
         \<and> to_excel xlsx_file (sheets_for local_date ids runs) = None"
  then have len: "length runs = length devices" "length ids = length devices"
    using message_runs_length map_eq_imp_length_eq by (blast, metis)
  from h show "main local_date to_excel xlsx_file group_id api_token (script, tr) =
               (Some (Inr ()), rest, ltr @ [Write xlsx_file (sheets_for local_date ids runs)])"
    using main_complete by blast
  from len show "map sheet_name (sheets_for local_date ids runs) = map (\<lambda>s. JStr (take 30 s)) ids"
    by (simp add: sheets_for_names)
qed

lemma names_fetch:
  "DeviceFetcher_fetch \<lparr>d_group_id = ''group'', d_api_token = ''token''\<rparr> (names_script, []) =
     (Some (Inr [device_long, device_long_twin, device_empty_id]),
      [ok_page [], ok_page [], ok_page []],
      [Http (device_request fetcher_d 100 0) (ok_page [device_long, device_long_twin, device_empty_id])])"
  by (simp add: names_script_def DeviceFetcher_fetch_paginate ok_page_def fetcher_d_def)

lemma names_message_runs:
  "message_runs [device_long, device_long_twin, device_empty_id]
     ([ok_page [], ok_page [], ok_page []],
      [Http (device_request fetcher_d 100 0) (ok_page [device_long, device_long_twin, device_empty_id])]) =
   Some ([[], [], []], [],
      [Http (device_request fetcher_d 100 0) (ok_page [device_long, device_long_twin, device_empty_id]),
       Http (message_request \<lparr>m_group_id = JStr ''group-a'',
               m_device_id = JStr ''0123456789abcdefghijklmnopqrstuvwxyz'',
               m_api_token = JStr ''token-a''\<rparr> 100 0) (ok_page []),
       Http (message_request \<lparr>m_group_id = JStr ''group-a'',
               m_device_id = JStr ''0123456789abcdefghijklmnopqrstXYZ'',
               m_api_token = JStr ''token-a''\<rparr> 100 0) (ok_page []),
       Http (message_request \<lparr>m_group_id = JStr ''group-a'', m_device_id = JStr [],
               m_api_token = JStr ''token-a''\<rparr> 100 0) (ok_page [])])"
  by (simp add: fetcher_of_def device_long_def device_long_twin_def device_empty_id_def
        MessageFetcher_fetch_paginate ok_page_def)

theorem main_sheet_names_witness:
  "main stub_local_date no_writer_error ''out.xlsx'' ''group'' ''token'' (names_script, []) =
     (Some (Inr ()), [],
      [Http (device_request fetcher_d 100 0) (ok_page [device_long, device_long_twin, device_empty_id]),
       Http (message_request \<lparr>m_group_id = JStr ''group-a'',
               m_device_id = JStr ''0123456789abcdefghijklmnopqrstuvwxyz'',
               m_api_token = JStr ''token-a''\<rparr> 100 0) (ok_page []),
       Http (message_request \<lparr>m_group_id = JStr ''group-a'',
               m_device_id = JStr ''0123456789abcdefghijklmnopqrstXYZ'',
               m_api_token = JStr ''token-a''\<rparr> 100 0) (ok_page []),
       Http (message_request \<lparr>m_group_id = JStr ''group-a'', m_device_id = JStr [],
               m_api_token = JStr ''token-a''\<rparr> 100 0) (ok_page []),
       Write ''out.xlsx''
         [\<lparr>sheet_name = JStr ''0123456789abcdefghijklmnopqrst'', sheet_data = []\<rparr>,
          \<lparr>sheet_name = JStr ''0123456789abcdefghijklmnopqrst'', sheet_data = []\<rparr>,
          \<lparr>sheet_name = JStr [], sheet_data = []\<rparr>]])"
proof -
  have ids: "map (\<lambda>device. py_getitem device ''id'') [device_long, device_long_twin, device_empty_id] =
      map (\<lambda>s. Inr (JStr s))
        [''0123456789abcdefghijklmnopqrstuvwxyz'', ''0123456789abcdefghijklmnopqrstXYZ'', []]"
    by (simp add: device_long_def device_long_twin_def device_empty_id_def)
  have names: "\<forall>device\<in>set [device_long, device_long_twin, device_empty_id].
      \<exists>nm. py_getitem device ''name'' = Inr nm"
    by (simp add: device_long_def device_long_twin_def device_empty_id_def)
  have ok: "\<forall>messages\<in>set [[], [], []].
      \<forall>m\<in>set messages. \<exists>x. extract_measurement stub_local_date m = Inr x"
    by simp
  have wr: "no_writer_error ''out.xlsx'' (sheets_for stub_local_date
        [''0123456789abcdefghijklmnopqrstuvwxyz'', ''0123456789abcdefghijklmnopqrstXYZ'', []]
        [[], [], []]) = None"
    by (simp add: no_writer_error_def)
  have sh: "sheets_for stub_local_date
        [''0123456789abcdefghijklmnopqrstuvwxyz'', ''0123456789abcdefghijklmnopqrstXYZ'', []]
        [[], [], []] =
      [\<lparr>sheet_name = JStr ''0123456789abcdefghijklmnopqrst'', sheet_data = []\<rparr>,
       \<lparr>sheet_name = JStr ''0123456789abcdefghijklmnopqrst'', sheet_data = []\<rparr>,
       \<lparr>sheet_name = JStr [], sheet_data = []\<rparr>]"
    by (simp add: sheets_for_def rows_def map_filter_simps)
  note run = main_sheet_names [where local_date = stub_local_date and to_excel = no_writer_error
      and xlsx_file = "''out.xlsx''" and group_id = "''group''" and api_token = "''token''"
      and script = names_script and tr = "[]",
      THEN conjunct2, rule_format, OF conjI [OF names_fetch conjI [OF names_message_runs
        conjI [OF ids conjI [OF names conjI [OF ok wr]]]]], THEN conjunct1]
  from run [unfolded sh] show ?thesis
    by (simp only: append_Cons append_Nil)
qed

lemma exchanges_mem:
  "e \<in> set (exchanges mk offsets script) \<Longrightarrow> \<exists>offset resp. e = Http (mk offset) resp"
  by (auto simp: exchanges_def)

lemma DeviceFetcher_fetch_requests:
  "DeviceFetcher_fetch self (script, tr) = (res, rest, tr') \<Longrightarrow>
     \<exists>new. tr' = tr @ new \<and>
       (\<forall>e\<in>set new. \<exists>offset resp. e = Http (device_request self 100 offset) resp)"
  by (auto simp: DeviceFetcher_fetch_paginate split: prod.splits dest: exchanges_mem)

lemma MessageFetcher_fetch_requests:
  "MessageFetcher_fetch self (script, tr) = (res, rest, tr') \<Longrightarrow>
     \<exists>new. tr' = tr @ new \<and>
       (\<forall>e\<in>set new. \<exists>offset resp. e = Http (message_request self 100 offset) resp)"
  by (auto simp: MessageFetcher_fetch_paginate split: prod.splits dest: exchanges_mem)

lemma device_body_requests:
  assumes "device_body local_date device (script, tr) = (res, rest, tr')"
  shows "\<exists>new. tr' = tr @ new \<and>
           (\<forall>e\<in>set new. \<exists>f offset resp.
              fetcher_of device = Some f \<and> e = Http (message_request f 100 offset) resp)"
proof (cases "fetcher_of device")
  case None
  with assms have "tr' = tr"
    by (auto simp: device_body_def fetcher_of_def split: sum.splits)
  then show ?thesis by simp
next
  case (Some f)
  obtain fres frest ftr where
    f: "MessageFetcher_fetch f (script, tr) = (fres, frest, ftr)"
    using prod_cases3 by blast
  from Some assms f have "tr' = tr \<or> tr' = ftr"
    by (auto simp: device_body_def fetcher_of_def split: sum.splits option.splits)
  with MessageFetcher_fetch_requests [OF f] Some show ?thesis by auto
qed

lemma devices_loop_requests:
  "devices_loop local_date devices acc (script, tr) = (res, rest, tr') \<Longrightarrow>
     \<exists>new. tr' = tr @ new \<and>
       (\<forall>e\<in>set new. \<exists>device\<in>set devices. \<exists>f offset resp.
          fetcher_of device = Some f \<and> e = Http (message_request f 100 offset) resp)"
proof (induction devices arbitrary: acc script tr)
  case Nil
  then show ?case by simp
next
  case (Cons device devices)
  obtain bres brest btr where
    b: "device_body local_date device (script, tr) = (bres, brest, btr)"
    using prod_cases3 by blast
  from device_body_requests [OF b] obtain new where
    new: "btr = tr @ new"
      "\<forall>e\<in>set new. \<exists>f offset resp.
          fetcher_of device = Some f \<and> e = Http (message_request f 100 offset) resp"
    by blast
  show ?case
  proof (cases "\<exists>sh. bres = Some (Inr sh)")
    case False
    with Cons.prems b have "tr' = btr"
      by (auto split: option.splits sum.splits)
    with new show ?thesis by auto
  next
    case True
    then obtain sh where "bres = Some (Inr sh)" by blast
    with Cons.prems b have
      "devices_loop local_date devices (acc @ [sh]) (brest, btr) = (res, rest, tr')"
      by simp
    from Cons.IH [OF this] obtain new' where
      new': "tr' = btr @ new'"
        "\<forall>e\<in>set new'. \<exists>device\<in>set devices. \<exists>f offset resp.
          fetcher_of device = Some f \<and> e = Http (message_request f 100 offset) resp"
      by blast
    have "tr' = tr @ (new @ new')" using new(1) new'(1) by simp
    moreover have "\<forall>e\<in>set (new @ new'). \<exists>d\<in>set (device # devices). \<exists>f offset resp.
          fetcher_of d = Some f \<and> e = Http (message_request f 100 offset) resp"
      using new(2) new'(2) by auto
    ultimately show ?thesis by blast
  qed
qed


lemma main_requests:
  assumes "main local_date to_excel xlsx_file group_id api_token (script, tr) = (res, rest, tr')"
  shows "\<exists>new. tr' = tr @ new \<and>
           (\<forall>q resp. Http q resp \<in> set new \<longrightarrow>
              (\<exists>offset. q = device_request \<lparr>d_group_id = group_id, d_api_token = api_token\<rparr> 100 offset)
              \<or> (\<exists>devices w1 device f offset.
                    DeviceFetcher_fetch \<lparr>d_group_id = group_id, d_api_token = api_token\<rparr> (script, tr) =
                      (Some (Inr devices), w1)
                    \<and> device \<in> set devices \<and> fetcher_of device = Some f
                    \<and> q = message_request f 100 offset))"
proof -
  obtain dres drest dtr where
    d: "DeviceFetcher_fetch \<lparr>d_group_id = group_id, d_api_token = api_token\<rparr> (script, tr) =
          (dres, drest, dtr)"
    using prod_cases3 by blast
  from DeviceFetcher_fetch_requests [OF d] obtain new1 where
    new1: "dtr = tr @ new1"
      "\<forall>e\<in>set new1. \<exists>offset resp.
         e = Http (device_request \<lparr>d_group_id = group_id, d_api_token = api_token\<rparr> 100 offset) resp"
    by blast
  show ?thesis
  proof (cases "\<exists>devices. dres = Some (Inr devices)")
    case False
    with assms d have "tr' = dtr"
      by (auto simp: main_def split: option.splits sum.splits)
    with new1 show ?thesis by (intro exI [of _ new1]) auto
  next
    case True
    then obtain devices where dv: "dres = Some (Inr devices)" by blast
    obtain lres lrest ltr where
      l: "devices_loop local_date devices [] (drest, dtr) = (lres, lrest, ltr)"
      using prod_cases3 by blast
    from devices_loop_requests [OF l] obtain new2 where
      new2: "ltr = dtr @ new2"
        "\<forall>e\<in>set new2. \<exists>device\<in>set devices. \<exists>f offset resp.
          fetcher_of device = Some f \<and> e = Http (message_request f 100 offset) resp"
      by blast
    from assms d dv l have "tr' = ltr \<or> (\<exists>sheets. tr' = ltr @ [Write xlsx_file sheets])"
      by (auto simp: main_def Let_def split: option.splits sum.splits)
    then obtain tail where tail: "tr' = tr @ (new1 @ new2 @ tail)"
      "\<forall>q resp. Http q resp \<notin> set tail"
      using new1(1) new2(1) by auto
    have "\<forall>q resp. Http q resp \<in> set (new1 @ new2 @ tail) \<longrightarrow>
              (\<exists>offset. q = device_request \<lparr>d_group_id = group_id, d_api_token = api_token\<rparr> 100 offset)
              \<or> (\<exists>device\<in>set devices. \<exists>f offset.
                    fetcher_of device = Some f \<and> q = message_request f 100 offset)"
      using new1(2) new2(2) tail(2) by fastforce
    with tail(1) d dv show ?thesis
      by (intro exI [of _ "new1 @ new2 @ tail"]) blast
  qed
qed

lemma fetcher_of_fields:
  "fetcher_of device = Some f \<Longrightarrow>
     py_getitem device ''group_id'' = Inr (m_group_id f)
     \<and> py_getitem device ''id'' = Inr (m_device_id f)
     \<and> py_getitem device ''api_token'' = Inr (m_api_token f)"
  by (auto simp: fetcher_of_def split: sum.splits)

text \<open>
  C9. Every request of a run of \<open>main\<close> is either a request of the device list, with the
  group identifier and the token of the command line, or a request of messages made with
  the \<open>group_id\<close>, the \<open>id\<close> and the \<open>api_token\<close> of a device of the fetched list: no
  request of messages takes its group or its token from the command line.
\<close>

theorem message_requests_credentials:
  assumes "main local_date to_excel xlsx_file group_id api_token (script, tr) = (res, rest, tr')"
  shows "\<exists>new. tr' = tr @ new \<and>
           (\<forall>q resp. Http q resp \<in> set new \<longrightarrow>
              (url q = ''https://api.hardwario.cloud/v1/devices''
               \<and> bearer q = JStr api_token
               \<and> map_of (params q) ''group_id'' = Some (JStr group_id))
              \<or> (url q = ''https://api.hardwario.cloud/v1/messages''
                  \<and> (\<exists>devices w1 device.
                        DeviceFetcher_fetch \<lparr>d_group_id = group_id, d_api_token = api_token\<rparr> (script, tr) =
                          (Some (Inr devices), w1)
                        \<and> device \<in> set devices
                        \<and> py_getitem device ''api_token'' = Inr (bearer q)
                        \<and> (\<exists>gid. py_getitem device ''group_id'' = Inr gid
                                  \<and> map_of (params q) ''group_id'' = Some gid)
                        \<and> (\<exists>did. py_getitem device ''id'' = Inr did
                                  \<and> map_of (params q) ''device_id'' = Some did))))"
proof -
  from main_requests [OF assms] obtain new where
    new: "tr' = tr @ new" and
    sh: "\<forall>q resp. Http q resp \<in> set new \<longrightarrow>
              (\<exists>offset. q = device_request \<lparr>d_group_id = group_id, d_api_token = api_token\<rparr> 100 offset)
              \<or> (\<exists>devices w1 device f offset.
                    DeviceFetcher_fetch \<lparr>d_group_id = group_id, d_api_token = api_token\<rparr> (script, tr) =
                      (Some (Inr devices), w1)
                    \<and> device \<in> set devices \<and> fetcher_of device = Some f
                    \<and> q = message_request f 100 offset)"
    by blast
  have "\<forall>q resp. Http q resp \<in> set new \<longrightarrow>
              (url q = ''https://api.hardwario.cloud/v1/devices''
               \<and> bearer q = JStr api_token
               \<and> map_of (params q) ''group_id'' = Some (JStr group_id))
              \<or> (url q = ''https://api.hardwario.cloud/v1/messages''
                  \<and> (\<exists>devices w1 device.
                        DeviceFetcher_fetch \<lparr>d_group_id = group_id, d_api_token = api_token\<rparr> (script, tr) =
                          (Some (Inr devices), w1)
                        \<and> device \<in> set devices
                        \<and> py_getitem device ''api_token'' = Inr (bearer q)
                        \<and> (\<exists>gid. py_getitem device ''group_id'' = Inr gid
                                  \<and> map_of (params q) ''group_id'' = Some gid)
                        \<and> (\<exists>did. py_getitem device ''id'' = Inr did
                                  \<and> map_of (params q) ''device_id'' = Some did)))"
  proof (intro allI impI)
    fix q resp
    assume "Http q resp \<in> set new"
    with sh consider
      (dev) offset where "q = device_request \<lparr>d_group_id = group_id, d_api_token = api_token\<rparr> 100 offset"
    | (msg) devices w1 device f offset where
        "DeviceFetcher_fetch \<lparr>d_group_id = group_id, d_api_token = api_token\<rparr> (script, tr) =
           (Some (Inr devices), w1)"
        "device \<in> set devices" "fetcher_of device = Some f" "q = message_request f 100 offset"
      by blast
    then show "(url q = ''https://api.hardwario.cloud/v1/devices''
               \<and> bearer q = JStr api_token
               \<and> map_of (params q) ''group_id'' = Some (JStr group_id))
              \<or> (url q = ''https://api.hardwario.cloud/v1/messages''
                  \<and> (\<exists>devices w1 device.
                        DeviceFetcher_fetch \<lparr>d_group_id = group_id, d_api_token = api_token\<rparr> (script, tr) =
                          (Some (Inr devices), w1)
                        \<and> device \<in> set devices
                        \<and> py_getitem device ''api_token'' = Inr (bearer q)
                        \<and> (\<exists>gid. py_getitem device ''group_id'' = Inr gid
                                  \<and> map_of (params q) ''group_id'' = Some gid)
                        \<and> (\<exists>did. py_getitem device ''id'' = Inr did
                                  \<and> map_of (params q) ''device_id'' = Some did)))"
    proof cases
      case dev
      then show ?thesis by (simp add: device_request_def)
    next
      case msg
      from fetcher_of_fields [OF msg(3)] msg(4) have
        "url q = ''https://api.hardwario.cloud/v1/messages''"
        "py_getitem device ''api_token'' = Inr (bearer q)"
        "py_getitem device ''group_id'' = Inr (m_group_id f)"
        "map_of (params q) ''group_id'' = Some (m_group_id f)"
        "py_getitem device ''id'' = Inr (m_device_id f)"
        "map_of (params q) ''device_id'' = Some (m_device_id f)"
        by (simp_all add: message_request_def)
      with msg(1,2) show ?thesis by blast
    qed
  qed
  with new show ?thesis by blast
qed

theorem message_requests_credentials_witness:
  "\<exists>tr'. main stub_local_date no_writer_error ''out.xlsx'' ''group'' ''token'' (scenario_script, []) =
            (Some (Inr ()), [], tr')
         \<and> map (\<lambda>e. case e of Http q resp \<Rightarrow> (url q, bearer q, map_of (params q) ''group_id'')
                              | _ \<Rightarrow> ([], JNull, None)) (butlast tr') =
             [(''https://api.hardwario.cloud/v1/devices'', JStr ''token'', Some (JStr ''group'')),
              (''https://api.hardwario.cloud/v1/messages'', JStr ''token-a'', Some (JStr ''group-a'')),
              (''https://api.hardwario.cloud/v1/messages'', JStr ''token-b'', Some (JStr ''group-b''))]"
  using message_requests_credentials [OF scenario_run] scenario_run
  by (simp add: device_request_def message_request_def fetcher_d_def fetcher_a_def)

end
